theory Spec2Isabelle
  imports Main "HOL-Library.Word"
begin

section \<open>Go errors\<close>

text \<open>
  The error values that \<^verbatim>\<open>s3storage.go\<close> creates, compares or inspects.
  \<^item> \<open>ErrNotFound\<close> is the package's own sentinel, \<^verbatim>\<open>errors.New("file not found")\<close>.
  \<^item> \<open>EOF\<close> and \<open>ErrUnexpectedEOF\<close> are the two sentinels of package \<^verbatim>\<open>io\<close>.
  \<^item> \<open>ErrNoSuchKey m\<close> and \<open>ErrNotFoundHead m\<close> are the S3 error types
    \<^verbatim>\<open>*types.NoSuchKey\<close> and \<^verbatim>\<open>*types.NotFound\<close> with their message; both
    implement \<^verbatim>\<open>smithy.APIError\<close>.
  \<^item> \<open>APIError code msg\<close> is any other value implementing \<^verbatim>\<open>smithy.APIError\<close>.
  \<^item> \<open>Plain msg\<close> is an error that wraps nothing and has none of the types above.
  \<^item> \<open>Wrap msg cause\<close> is an error with an \<^verbatim>\<open>Unwrap\<close> method: what
    \<^verbatim>\<open>fmt.Errorf("...: %w", cause)\<close> builds, and what the SDK's operation errors are.
\<close>

datatype error =
    ErrNotFound
  | EOF
  | ErrUnexpectedEOF
  | ErrNoSuchKey string
  | ErrNotFoundHead string
  | APIError string string
  | Plain string
  | Wrap string error

text \<open>The method \<^verbatim>\<open>Error()\<close>.\<close>

fun Error :: "error \<Rightarrow> string" where
  "Error ErrNotFound = ''file not found''"
| "Error EOF = ''EOF''"
| "Error ErrUnexpectedEOF = ''unexpected EOF''"
| "Error (ErrNoSuchKey m) = ''NoSuchKey: '' @ m"
| "Error (ErrNotFoundHead m) = ''NotFound: '' @ m"
| "Error (APIError code m) = ''api error '' @ code @ '': '' @ m"
| "Error (Plain m) = m"
| "Error (Wrap m cause) = m"

text \<open>
  \<^verbatim>\<open>fmt.Errorf(prefix + "%w", cause)\<close>: every format string of the file ends in
  \<^verbatim>\<open>%w\<close>, so the message is the formatted prefix followed by the cause's message,
  and \<^verbatim>\<open>Unwrap\<close> gives the cause back.
\<close>

definition Errorf_w :: "string \<Rightarrow> error \<Rightarrow> error" where
  "Errorf_w prefix cause = Wrap (prefix @ Error cause) cause"

text \<open>\<^verbatim>\<open>errors.Is(err, target)\<close>: walk the \<^verbatim>\<open>Unwrap\<close> chain, comparing with \<^verbatim>\<open>==\<close>.\<close>

fun errors_Is :: "error \<Rightarrow> error \<Rightarrow> bool" where
  "errors_Is (Wrap m cause) target = (Wrap m cause = target \<or> errors_Is cause target)"
| "errors_Is err target = (err = target)"

text \<open>\<^verbatim>\<open>errors.As(err, &er)\<close> with \<^verbatim>\<open>er\<close> of type \<^verbatim>\<open>*types.NoSuchKey\<close>.\<close>

fun as_NoSuchKey :: "error \<Rightarrow> bool" where
  "as_NoSuchKey (ErrNoSuchKey m) = True"
| "as_NoSuchKey (Wrap m cause) = as_NoSuchKey cause"
| "as_NoSuchKey err = False"

text \<open>\<^verbatim>\<open>errors.As(err, &notFound)\<close> with \<^verbatim>\<open>notFound\<close> of type \<^verbatim>\<open>*types.NotFound\<close>.\<close>

fun as_NotFound :: "error \<Rightarrow> bool" where
  "as_NotFound (ErrNotFoundHead m) = True"
| "as_NotFound (Wrap m cause) = as_NotFound cause"
| "as_NotFound err = False"

text \<open>
  \<^verbatim>\<open>errors.As(err, &apiErr)\<close> with \<^verbatim>\<open>apiErr\<close> of the interface type
  \<^verbatim>\<open>smithy.APIError\<close>: the first error of the chain that implements the interface,
  as the pair of its \<^verbatim>\<open>ErrorCode()\<close> and \<^verbatim>\<open>ErrorMessage()\<close>.
\<close>

fun as_APIError :: "error \<Rightarrow> (string \<times> string) option" where
  "as_APIError (ErrNoSuchKey m) = Some (''NoSuchKey'', m)"
| "as_APIError (ErrNotFoundHead m) = Some (''NotFound'', m)"
| "as_APIError (APIError code m) = Some (code, m)"
| "as_APIError (Wrap m cause) = as_APIError cause"
| "as_APIError err = None"

section \<open>Save options\<close>

record SaveOptions =
  ContentType :: string
  AutoContentType :: bool

type_synonym SaveOption = "SaveOptions \<Rightarrow> SaveOptions"

definition WithContentType :: "string \<Rightarrow> SaveOption" where
  "WithContentType ct = (\<lambda>opts. opts\<lparr>ContentType := ct\<rparr>)"

definition WithAutoContentType :: SaveOption where
  "WithAutoContentType = (\<lambda>opts. opts\<lparr>AutoContentType := True\<rparr>)"

text \<open>The zero value \<^verbatim>\<open>SaveOptions{}\<close>.\<close>

definition zero_SaveOptions :: SaveOptions where
  "zero_SaveOptions = \<lparr>ContentType = '''', AutoContentType = False\<rparr>"

text \<open>The loop \<^verbatim>\<open>for _, opt := range opts { opt(&options) }\<close>.\<close>

fun apply_opts :: "SaveOptions \<Rightarrow> SaveOption list \<Rightarrow> SaveOptions" where
  "apply_opts options [] = options"
| "apply_opts options (opt # opts) = apply_opts (opt options) opts"

definition resolve_options :: "SaveOption list \<Rightarrow> SaveOptions" where
  "resolve_options opts = apply_opts zero_SaveOptions opts"

section \<open>Construction\<close>

record Config =
  cfg_Bucket :: string
  Region :: string
  Endpoint :: string
  AccessKey :: string
  SecretKey :: string

text \<open>
  The settings of \<^verbatim>\<open>manager.Uploader\<close> and of \<^verbatim>\<open>manager.Downloader\<close> that
  \<^verbatim>\<open>NewS3Storage\<close> writes: both structs have a \<^verbatim>\<open>PartSize\<close> (bytes) and a
  \<^verbatim>\<open>Concurrency\<close> (workers).
\<close>

record transfer =
  PartSize :: nat
  Concurrency :: nat

text \<open>
  The SDK's defaults, which \<^verbatim>\<open>manager.NewUploader\<close> and
  \<^verbatim>\<open>manager.NewDownloader\<close> set before they run the caller's option function. The
  client they are given is kept in the storage itself (field \<open>client\<close> below).
\<close>

definition sdk_default_transfer :: transfer where
  "sdk_default_transfer = \<lparr>PartSize = 5 * 1024 * 1024, Concurrency = 5\<rparr>"

definition NewUploader :: "'c \<Rightarrow> (transfer \<Rightarrow> transfer) \<Rightarrow> transfer" where
  "NewUploader client opt = opt sdk_default_transfer"

definition NewDownloader :: "'c \<Rightarrow> (transfer \<Rightarrow> transfer) \<Rightarrow> transfer" where
  "NewDownloader client opt = opt sdk_default_transfer"

text \<open>The options handed to \<^verbatim>\<open>config.LoadDefaultConfig\<close>.\<close>

datatype LoadOption =
    WithRegion string
  | WithBaseEndpoint string
  | WithCredentialsProvider string string string


section \<open>Byte streams\<close>

type_synonym byte = "8 word"

text \<open>
  The values of the interface \<^verbatim>\<open>io.Reader\<close> that occur in the program.
  \<^item> \<open>Source chunks fin eager\<close> is a stream supplied by the caller (or by the backend):
    \<open>chunks\<close> is its data, cut into the pieces that successive \<^verbatim>\<open>Read\<close> calls find
    available (a call returns at most one piece, so short reads and empty reads are
    covered); \<open>fin\<close> is the condition it reports for good once the data is used up,
    \<open>EOF\<close> or an error; \<open>eager\<close> says whether \<open>fin\<close> comes together with the last
    piece rather than with the call after it (Go allows both).
  \<^item> \<open>BytesReader s\<close> is \<^verbatim>\<open>bytes.NewReader\<close>, holding the bytes not yet read
    (\<^verbatim>\<open>r.s[r.i:]\<close>).
  \<^item> \<open>MultiReader rs\<close> is \<^verbatim>\<open>io.MultiReader\<close> with its remaining readers.
\<close>

datatype reader =
    Source "byte list list" error bool
  | BytesReader "byte list"
  | MultiReader "reader list"

text \<open>
  \<open>Read r k\<close> is \<^verbatim>\<open>r.Read(p)\<close> with \<^verbatim>\<open>len(p) = k\<close>: the bytes stored into
  \<^verbatim>\<open>p\<close>, the error (\<open>None\<close> for \<^verbatim>\<open>nil\<close>), and the reader afterwards. The equations
  for \<open>BytesReader\<close> and \<open>MultiReader\<close> follow the methods of the Go library:
  a multi-reader that is left with one reader which is itself a multi-reader takes over
  its readers; a reader that reports \<open>EOF\<close> is dropped; \<open>EOF\<close> is passed on only
  when no reader remains.
\<close>

fun Read :: "reader \<Rightarrow> nat \<Rightarrow> (byte list \<times> error option) \<times> reader" where
  "Read (Source [] fin eager) k = (([], Some fin), Source [] fin eager)"
| "Read (Source (c # cs) fin eager) k =
     (if k < length c then ((take k c, None), Source (drop k c # cs) fin eager)
      else ((c, if cs = [] \<and> eager then Some fin else None), Source cs fin eager))"
| "Read (BytesReader s) k =
     (if s = [] then (([], Some EOF), BytesReader s)
      else ((take k s, None), BytesReader (drop k s)))"
| "Read (MultiReader []) k = (([], Some EOF), MultiReader [])"
| "Read (MultiReader [MultiReader rs]) k = Read (MultiReader rs) k"
| "Read (MultiReader (r # rs)) k =
     (case Read r k of
        ((bs, err), r') \<Rightarrow>
          if err = Some EOF then
            (if bs \<noteq> [] then ((bs, if rs \<noteq> [] then None else Some EOF), MultiReader rs)
             else Read (MultiReader rs) k)
          else ((bs, err), MultiReader (r' # rs)))"

text \<open>An upper bound on the number of error-free reads a reader still allows.\<close>

fun steps :: "reader \<Rightarrow> nat" where
  "steps (Source cs fin eager) = length (concat cs) + length cs"
| "steps (BytesReader s) = length s"
| "steps (MultiReader rs) = sum_list (map steps rs) + length rs"


text \<open>
  The first equation of \<open>Read\<close> for a non-empty multi-reader applies when the
  multi-reader has exactly one reader left and that reader is a multi-reader.
\<close>

definition flattens :: "reader \<Rightarrow> reader list \<Rightarrow> bool" where
  "flattens r rs = (rs = [] \<and> (case r of MultiReader rs' \<Rightarrow> True | _ \<Rightarrow> False))"

lemma Read_MultiReader_Cons:
  "\<not> flattens r rs \<Longrightarrow>
   Read (MultiReader (r # rs)) k =
     (case Read r k of
        ((bs, err), r') \<Rightarrow>
          if err = Some EOF then
            (if bs \<noteq> [] then ((bs, if rs \<noteq> [] then None else Some EOF), MultiReader rs)
             else Read (MultiReader rs) k)
          else ((bs, err), MultiReader (r' # rs)))"
  by (cases r; cases rs) (auto simp: flattens_def)

lemma Read_induct2 [case_names SourceNil SourceCons Bytes MultiNil Flatten MultiCons]:
  assumes "\<And>fin eager k. P (Source [] fin eager) k"
    and "\<And>c cs fin eager k. P (Source (c # cs) fin eager) k"
    and "\<And>s k. P (BytesReader s) k"
    and "\<And>k. P (MultiReader []) k"
    and "\<And>rs k. P (MultiReader rs) k \<Longrightarrow> P (MultiReader [MultiReader rs]) k"
    and "\<And>r rs k. \<not> flattens r rs \<Longrightarrow> P r k \<Longrightarrow>
           (\<And>r'. Read r k = (([], Some EOF), r') \<Longrightarrow> P (MultiReader rs) k) \<Longrightarrow>
           P (MultiReader (r # rs)) k"
  shows "P r k"
proof -
  have step: "P (MultiReader (r # rs)) k"
    if "\<not> flattens r rs" and "P r k"
      and "\<And>x y xa ya. (x, y) = Read r k \<Longrightarrow> (xa, ya) = x \<Longrightarrow> ya = Some EOF \<Longrightarrow> \<not> xa \<noteq> []
             \<Longrightarrow> P (MultiReader rs) k"
    for r rs k
  proof (rule assms(6)[OF that(1,2)])
    fix r' assume "Read r k = (([], Some EOF), r')"
    then show "P (MultiReader rs) k"
      by (intro that(3)[of "([], Some EOF)" r' "[]" "Some EOF"]) simp_all
  qed
  show ?thesis
    apply (induction r k rule: Read.induct)
    subgoal by (rule assms(1))
    subgoal by (rule assms(2))
    subgoal by (rule assms(3))
    subgoal by (rule assms(4))
    subgoal by (rule assms(5))
    subgoal by (rule step) (simp_all add: flattens_def)
    subgoal by (rule step) (simp_all add: flattens_def)
    subgoal by (rule step) (simp_all add: flattens_def)
    done
qed

lemmas Read_Multi_simps = Read.simps(6-8)

declare Read_Multi_simps [simp del]

lemma Read_length: "Read r k = ((bs, err), r') \<Longrightarrow> length bs \<le> k"
proof (induction r k arbitrary: bs err r' rule: Read_induct2)
  case (MultiCons r rs k)
  obtain bs1 err1 r1 where r1: "Read r k = ((bs1, err1), r1)" by (metis prod.exhaust)
  with MultiCons show ?case
    by (auto simp: Read_MultiReader_Cons split: if_splits)
qed (auto split: if_splits)

lemma Read_steps: "0 < k \<Longrightarrow> Read r k = ((bs, None), r') \<Longrightarrow> steps r' < steps r"
proof (induction r k arbitrary: bs r' rule: Read_induct2)
  case (MultiCons r rs k)
  obtain bs1 err1 r1 where r1: "Read r k = ((bs1, err1), r1)" by (metis prod.exhaust)
  with MultiCons show ?case
    by (fastforce simp: Read_MultiReader_Cons split: if_splits)
qed (auto split: if_splits)

text \<open>
  \<^verbatim>\<open>io.ReadFull(r, buf)\<close> is \<^verbatim>\<open>io.ReadAtLeast(r, buf, len(buf))\<close>. Its loop
  \<^verbatim>\<open>for n < min && err == nil { nn, err = r.Read(buf[n:]); n += nn }\<close>
  is \<open>ReadFull_loop\<close>, with \<open>buf\<close> the bytes read so far, \<^verbatim>\<open>buf[:n]\<close>.
\<close>

function ReadFull_loop ::
  "reader \<Rightarrow> nat \<Rightarrow> byte list \<Rightarrow> error option \<Rightarrow> (byte list \<times> error option) \<times> reader" where
  "ReadFull_loop r len_buf buf err =
     (if length buf < len_buf \<and> err = None then
        (case Read r (len_buf - length buf) of
           ((bs, err'), r') \<Rightarrow> ReadFull_loop r' len_buf (buf @ bs) err')
      else ((buf, err), r))"
  by pat_completeness auto
termination
proof (relation "measure (\<lambda>(r, len_buf, buf, err). if err = None then Suc (steps r) else 0)")
  fix r :: reader and len_buf :: nat and buf :: "byte list" and err :: "error option"
    and x y xa ya
  assume a: "length buf < len_buf \<and> err = None" "(x, y) = Read r (len_buf - length buf)"
    "(xa, ya) = x"
  then have "Read r (len_buf - length buf) = ((xa, ya), y)" by simp
  with a(1) Read_steps[of "len_buf - length buf" r xa y]
  show "((y, len_buf, buf @ xa, ya), r, len_buf, buf, err)
         \<in> measure (\<lambda>(r, len_buf, buf, err). if err = None then Suc (steps r) else 0)"
    by auto
qed simp

declare ReadFull_loop.simps [simp del]

text \<open>
  After the loop: \<^verbatim>\<open>if n >= min { err = nil } else if n > 0 && err == EOF
  { err = ErrUnexpectedEOF }\<close>. The result is \<^verbatim>\<open>buf[:n]\<close>, the error and the reader
  afterwards.
\<close>

definition ReadFull :: "reader \<Rightarrow> nat \<Rightarrow> (byte list \<times> error option) \<times> reader" where
  "ReadFull r len_buf =
     (case ReadFull_loop r len_buf [] None of
        ((buf, err), r') \<Rightarrow>
          ((buf,
            if len_buf \<le> length buf then None
            else if buf \<noteq> [] \<and> err = Some EOF then Some ErrUnexpectedEOF
            else err), r'))"

text \<open>
  Reading a stream to its end with a buffer of \<open>k\<close> bytes, as \<^verbatim>\<open>io.ReadAll\<close>
  and any consumer of a request body do: call \<^verbatim>\<open>Read\<close> until it reports an error,
  and return the bytes received together with that error (\<open>EOF\<close> for a stream that
  ended normally). A buffer of no bytes reads nothing.
\<close>

function read_to_end :: "reader \<Rightarrow> nat \<Rightarrow> byte list \<Rightarrow> byte list \<times> error" where
  "read_to_end r k acc =
     (if k = 0 then (acc, Plain ''short buffer'')
      else (case Read r k of
              ((bs, None), r') \<Rightarrow> read_to_end r' k (acc @ bs)
            | ((bs, Some e), r') \<Rightarrow> (acc @ bs, e)))"
  by pat_completeness auto
termination
proof (relation "measure (\<lambda>(r, k, acc). steps r)")
  fix r :: reader and k :: nat and acc :: "byte list" and x y xa ya
  assume "k \<noteq> 0" "(x, y) = Read r k" "(xa, ya) = x" "ya = None"
  then have "0 < k" "Read r k = ((xa, None), y)" by simp_all
  then show "((y, k, acc @ xa), r, k, acc) \<in> measure (\<lambda>(r, k, acc). steps r)"
    using Read_steps[of k r xa y] by simp
qed simp

declare read_to_end.simps [simp del]

text \<open>
  The bytes a reader still holds and the condition it ends in, read off its structure:
  a multi-reader goes on to its next reader exactly when the current one ends in \<open>EOF\<close>.
\<close>

fun stream_of :: "reader \<Rightarrow> byte list \<times> error" where
  "stream_of (Source cs fin eager) = (concat cs, fin)"
| "stream_of (BytesReader s) = (s, EOF)"
| "stream_of (MultiReader []) = ([], EOF)"
| "stream_of (MultiReader (r # rs)) =
     (case stream_of r of
        (bs, e) \<Rightarrow>
          if e = EOF then (case stream_of (MultiReader rs) of (bs', e') \<Rightarrow> (bs @ bs', e'))
          else (bs, e))"

section \<open>The backend gateway\<close>

text \<open>The request \<^verbatim>\<open>s3.PutObjectInput\<close>, with the fields that \<^verbatim>\<open>Save\<close> sets.\<close>

record PutObjectInput =
  put_Bucket :: string
  put_Key :: string
  put_Body :: reader
  put_ContentType :: "string option"

text \<open>
  The requests \<^verbatim>\<open>s3.GetObjectInput\<close>, \<^verbatim>\<open>s3.HeadObjectInput\<close> and
  \<^verbatim>\<open>s3.DeleteObjectInput\<close>: the program sets \<^verbatim>\<open>Bucket\<close> and \<^verbatim>\<open>Key\<close> in each.
\<close>

record ObjectInput =
  obj_Bucket :: string
  obj_Key :: string

text \<open>
  An \<^verbatim>\<open>io.WriterAt\<close>, the random-access sink of \<^verbatim>\<open>Download\<close>: the byte written
  at each offset, if any.
\<close>

type_synonym sink = "nat \<Rightarrow> byte option"

text \<open>
  The calls into the AWS SDK, as functions of the state \<open>'st\<close> of the remote store:
  the three methods of \<^verbatim>\<open>s3.Client\<close> that the program calls, and the methods
  \<^verbatim>\<open>manager.Uploader.Upload\<close> and \<^verbatim>\<open>manager.Downloader.Download\<close>, which work
  through the same client under the given settings. An error is \<open>Some err\<close> or
  \<open>Inl err\<close>. The \<^verbatim>\<open>context.Context\<close> argument is not modelled.
\<close>

record 'st Client =
  GetObject :: "ObjectInput \<Rightarrow> 'st \<Rightarrow> error + reader"
  HeadObject :: "ObjectInput \<Rightarrow> 'st \<Rightarrow> error option"
  DeleteObject :: "ObjectInput \<Rightarrow> 'st \<Rightarrow> error option \<times> 'st"
  manager_Upload :: "transfer \<Rightarrow> PutObjectInput \<Rightarrow> 'st \<Rightarrow> error option \<times> 'st"
  manager_Download :: "transfer \<Rightarrow> sink \<Rightarrow> ObjectInput \<Rightarrow> 'st \<Rightarrow> error option \<times> sink"

section \<open>The storage\<close>

record 'st S3Storage =
  Bucket :: string
  client :: "'st Client"
  uploader :: transfer
  downloader :: transfer

text \<open>
  \<^verbatim>\<open>NewS3Storage\<close>. \<^verbatim>\<open>config.LoadDefaultConfig\<close> and \<^verbatim>\<open>s3.NewFromConfig\<close> are
  parameters.
\<close>

definition NewS3Storage ::
  "(LoadOption list \<Rightarrow> error + 'c) \<Rightarrow> ('c \<Rightarrow> 'st Client) \<Rightarrow> Config \<Rightarrow> error + 'st S3Storage" where
  "NewS3Storage LoadDefaultConfig NewFromConfig cfg =
     (let configOptions = [WithRegion (Region cfg), WithBaseEndpoint (Endpoint cfg)];
          configOptions =
            (if AccessKey cfg \<noteq> '''' \<and> SecretKey cfg \<noteq> ''''
             then configOptions @ [WithCredentialsProvider (AccessKey cfg) (SecretKey cfg) '''']
             else configOptions)
      in case LoadDefaultConfig configOptions of
           Inl err \<Rightarrow> Inl (Errorf_w ''failed to load AWS config: '' err)
         | Inr s3cfg \<Rightarrow>
             (let client = NewFromConfig s3cfg;
                  uploader =
                    NewUploader client (\<lambda>u. u\<lparr>PartSize := 5 * 1024 * 1024, Concurrency := 1\<rparr>);
                  downloader =
                    NewDownloader client (\<lambda>d. d\<lparr>PartSize := 5 * 1024 * 1024, Concurrency := 1\<rparr>)
              in Inr \<lparr>Bucket = cfg_Bucket cfg, client = client, uploader = uploader,
                      downloader = downloader\<rparr>))"

subsection \<open>Save\<close>

text \<open>
  The two statements under \<^verbatim>\<open>if n > 0\<close>: the detected type is stored in the options
  and the reader becomes \<^verbatim>\<open>io.MultiReader(bytes.NewReader(buf[:n]), r)\<close>.
  \<^verbatim>\<open>http.DetectContentType\<close> is a parameter.
\<close>

definition sniffed ::
  "(byte list \<Rightarrow> string) \<Rightarrow> SaveOptions \<Rightarrow> byte list \<Rightarrow> reader \<Rightarrow> SaveOptions \<times> reader" where
  "sniffed DetectContentType options buf_n r =
     (if buf_n \<noteq> [] then
        (options\<lparr>ContentType := DetectContentType buf_n\<rparr>, MultiReader [BytesReader buf_n, r])
      else (options, r))"

text \<open>
  The block \<^verbatim>\<open>if options.ContentType == "" && options.AutoContentType { ... }\<close>:
  either the error that \<^verbatim>\<open>Save\<close> returns at once, or the options and the reader that
  the rest of \<^verbatim>\<open>Save\<close> goes on with.
\<close>

definition sniff ::
  "(byte list \<Rightarrow> string) \<Rightarrow> SaveOptions \<Rightarrow> reader \<Rightarrow> error + SaveOptions \<times> reader" where
  "sniff DetectContentType options r =
     (if ContentType options = '''' \<and> AutoContentType options then
        (case ReadFull r 512 of
           ((buf_n, err), r') \<Rightarrow>
             (case err of
                Some e \<Rightarrow>
                  if e \<noteq> ErrUnexpectedEOF \<and> e \<noteq> EOF then
                    Inl (Errorf_w ''failed to read file header for content-type detection: '' e)
                  else Inr (sniffed DetectContentType options buf_n r')
              | None \<Rightarrow> Inr (sniffed DetectContentType options buf_n r')))
      else Inr (options, r))"

text \<open>
  \<^verbatim>\<open>Save\<close> up to the call of the uploader: the error of an early return, or the
  \<^verbatim>\<open>PutObjectInput\<close> handed to \<^verbatim>\<open>s.uploader.Upload\<close>.
\<close>

definition Save_input ::
  "'st S3Storage \<Rightarrow> (byte list \<Rightarrow> string) \<Rightarrow> string \<Rightarrow> reader \<Rightarrow> SaveOption list
     \<Rightarrow> error + PutObjectInput" where
  "Save_input s DetectContentType path r opts =
     (case sniff DetectContentType (resolve_options opts) r of
        Inl e \<Rightarrow> Inl e
      | Inr (options, r') \<Rightarrow>
          Inr \<lparr>put_Bucket = Bucket s,
               put_Key = path,
               put_Body = r',
               put_ContentType =
                 (if ContentType options \<noteq> '''' then Some (ContentType options) else None)\<rparr>)"

definition Save ::
  "'st S3Storage \<Rightarrow> (byte list \<Rightarrow> string) \<Rightarrow> string \<Rightarrow> reader \<Rightarrow> SaveOption list \<Rightarrow> 'st
     \<Rightarrow> error option \<times> 'st" where
  "Save s DetectContentType path r opts st =
     (case Save_input s DetectContentType path r opts of
        Inl e \<Rightarrow> (Some e, st)
      | Inr input \<Rightarrow>
          (case manager_Upload (client s) (uploader s) input st of
             (None, st') \<Rightarrow> (None, st')
           | (Some err, st') \<Rightarrow>
               (case as_APIError err of
                  Some (code, msg) \<Rightarrow>
                    (Some (Errorf_w (''s3 upload failed for bucket '' @ Bucket s @ '', key '' @ path
                                      @ '': '' @ msg @ '' (AWS code: '' @ code @ ''): '') err), st')
                | None \<Rightarrow>
                    (Some (Errorf_w (''couldn't upload file '' @ path @ '' to '' @ Bucket s @ '': '') err),
                     st'))))"

subsection \<open>Open, Download, Exists, Delete\<close>

definition Open :: "'st S3Storage \<Rightarrow> string \<Rightarrow> 'st \<Rightarrow> error + reader" where
  "Open s path st =
     (case GetObject (client s) \<lparr>obj_Bucket = Bucket s, obj_Key = path\<rparr> st of
        Inl err \<Rightarrow>
          if as_NoSuchKey err then Inl ErrNotFound
          else Inl (Errorf_w (''failed to open '' @ path @ '' from '' @ Bucket s @ '': '') err)
      | Inr body \<Rightarrow> Inr body)"

definition Download :: "'st S3Storage \<Rightarrow> string \<Rightarrow> sink \<Rightarrow> 'st \<Rightarrow> error option \<times> sink" where
  "Download s path w st =
     (case manager_Download (client s) (downloader s) w \<lparr>obj_Bucket = Bucket s, obj_Key = path\<rparr> st of
        (Some err, w') \<Rightarrow>
          if as_NoSuchKey err then (Some ErrNotFound, w')
          else (Some (Errorf_w (''failed to download '' @ path @ '' from '' @ Bucket s @ '': '') err), w')
      | (None, w') \<Rightarrow> (None, w'))"

definition Exists :: "'st S3Storage \<Rightarrow> string \<Rightarrow> 'st \<Rightarrow> bool \<times> error option" where
  "Exists s path st =
     (case HeadObject (client s) \<lparr>obj_Bucket = Bucket s, obj_Key = path\<rparr> st of
        None \<Rightarrow> (True, None)
      | Some err \<Rightarrow>
          if as_NotFound err then (False, None)
          else (False,
                Some (Errorf_w (''failed to check existence of '' @ path @ '' in '' @ Bucket s @ '': '')
                        err)))"

definition Delete :: "'st S3Storage \<Rightarrow> string \<Rightarrow> 'st \<Rightarrow> error option \<times> 'st" where
  "Delete s path st =
     (case DeleteObject (client s) \<lparr>obj_Bucket = Bucket s, obj_Key = path\<rparr> st of
        (Some err, st') \<Rightarrow>
          (Some (Errorf_w (''couldn't delete file '' @ path @ '' from '' @ Bucket s @ '': '') err), st')
      | (None, st') \<Rightarrow> (None, st'))"

section \<open>An object store for the round trip\<close>

lemma Read_steps_le: "Read r k = ((bs, err), r') \<Longrightarrow> steps r' \<le> steps r"
proof (induction r k arbitrary: bs err r' rule: Read_induct2)
  case (MultiCons r rs k)
  obtain bs1 err1 r1 where r1: "Read r k = ((bs1, err1), r1)" by (metis prod.exhaust)
  with MultiCons show ?case
    by (fastforce simp: Read_MultiReader_Cons split: if_splits)
qed (auto split: if_splits)

lemma ReadFull_loop_steps_le:
  "ReadFull_loop r L buf err = ((buf', err'), r') \<Longrightarrow> steps r' \<le> steps r"
proof (induction r L buf err rule: ReadFull_loop.induct)
  case (1 r len_buf buf err)
  show ?case
  proof (cases "length buf < len_buf \<and> err = None")
    case True
    obtain bs e1 r1 where rd: "Read r (len_buf - length buf) = ((bs, e1), r1)"
      by (metis prod.exhaust)
    from 1(2) True rd have "ReadFull_loop r1 len_buf (buf @ bs) e1 = ((buf', err'), r')"
      by (simp add: ReadFull_loop.simps[of r])
    with 1(1)[OF True rd[symmetric] refl] have "steps r' \<le> steps r1" by simp
    with Read_steps_le[OF rd] show ?thesis by simp
  next
    case False
    with 1(2) show ?thesis by (simp add: ReadFull_loop.simps[of r])
  qed
qed

lemma ReadFull_loop_err_stop: "ReadFull_loop r L buf (Some e) = ((buf, Some e), r)"
  by (simp add: ReadFull_loop.simps)

lemma ReadFull_loop_steps_less:
  assumes "ReadFull_loop r L buf None = ((buf', None), r')" "length buf < L"
  shows "steps r' < steps r"
proof -
  obtain bs e1 r1 where rd: "Read r (L - length buf) = ((bs, e1), r1)"
    by (metis prod.exhaust)
  with assms have l: "ReadFull_loop r1 L (buf @ bs) e1 = ((buf', None), r')"
    by (simp add: ReadFull_loop.simps[of r])
  have "e1 = None"
  proof (cases e1)
    case (Some e) with l show ?thesis by (simp add: ReadFull_loop_err_stop)
  qed simp
  with rd assms(2) have "steps r1 < steps r"
    using Read_steps[of "L - length buf" r bs r1] by simp
  with ReadFull_loop_steps_le[OF l] show ?thesis by simp
qed

text \<open>
  Modelled from the spec: an object of the remote store, which is kept by the S3 service
  and is not part of the repository. An object is a binary payload, here with the
  content type it was uploaded with.
\<close>

record object =
  data :: "byte list"
  media_type :: "string option"

text \<open>
  Modelled from the spec: the state of the remote store behind the Backend Gateway, which
  is the S3 service: the object, if any, under each (container, key) pair.
\<close>

type_synonym store = "string \<times> string \<Rightarrow> object option"

text \<open>
  Modelled from the spec: the splitting done by the upload half of the Transfer Pipeline,
  which is the SDK's \<^verbatim>\<open>manager.Uploader\<close> and not part of the repository. The source
  stream is split into parts of the configured fixed size, numbered at split time from
  \<open>seq\<close> on; the final part may be smaller. Each part is filled by the read loop
  \<open>ReadFull_loop\<close>; a stream that ends in \<open>EOF\<close> ends the split, any other read
  error fails the upload.
\<close>

function upload_parts :: "reader \<Rightarrow> nat \<Rightarrow> nat \<Rightarrow> error + (nat \<times> byte list) list" where
  "upload_parts r part_size seq =
     (if part_size = 0 then Inl (Plain ''part size is zero'')
      else (case ReadFull_loop r part_size [] None of
              ((part, None), r') \<Rightarrow>
                (case upload_parts r' part_size (Suc seq) of
                   Inl e \<Rightarrow> Inl e
                 | Inr parts \<Rightarrow> Inr ((seq, part) # parts))
            | ((part, Some e), r') \<Rightarrow>
                if e = EOF then Inr (if part = [] then [] else [(seq, part)]) else Inl e))"
  by pat_completeness auto
termination
proof (relation "measure (\<lambda>(r, part_size, seq). steps r)")
  fix r :: reader and part_size seq :: nat and x y xa ya
  assume "part_size \<noteq> 0" "(x, y) = ReadFull_loop r part_size [] None" "(xa, ya) = x" "ya = None"
  then have "ReadFull_loop r part_size [] None = ((xa, None), y)"
    "length ([]::byte list) < part_size"
    by simp_all
  then show "((y, part_size, Suc seq), r, part_size, seq)
         \<in> measure (\<lambda>(r, part_size, seq). steps r)"
    using ReadFull_loop_steps_less[of r part_size "[]" xa y] by simp
qed simp

declare upload_parts.simps [simp del]

text \<open>
  Modelled from the spec: the backend's reassembly of an upload, which happens in the
  S3 service: the parts are put together in the order of their sequence numbers.
\<close>

definition reassemble :: "(nat \<times> byte list) list \<Rightarrow> byte list" where
  "reassemble parts = concat (map snd (sort_key fst parts))"

text \<open>
  Modelled from the spec: \<^verbatim>\<open>manager.Uploader.Upload\<close>, which is the SDK's. Either
  all parts are accepted and one finalize step commits the object under its identity,
  with the content type of the request, or the upload fails and the store keeps its
  state.
\<close>

definition mem_Upload :: "transfer \<Rightarrow> PutObjectInput \<Rightarrow> store \<Rightarrow> error option \<times> store" where
  "mem_Upload t input st =
     (case upload_parts (put_Body input) (PartSize t) 1 of
        Inl e \<Rightarrow> (Some e, st)
      | Inr parts \<Rightarrow>
          (None, st((put_Bucket input, put_Key input) \<mapsto>
                      \<lparr>data = reassemble parts, media_type = put_ContentType input\<rparr>)))"

text \<open>
  Modelled from the spec: the splitting done by the download half of the Transfer Pipeline
  in sink mode, which is the SDK's \<^verbatim>\<open>manager.Downloader\<close>. The byte range of an
  object of \<open>n\<close> bytes is split into parts of the configured fixed size, each an
  (offset, length) pair; the final part may be smaller.
\<close>

definition part_ranges :: "nat \<Rightarrow> nat \<Rightarrow> (nat \<times> nat) list" where
  "part_ranges n part_size =
     map (\<lambda>i. (i * part_size, min part_size (n - i * part_size)))
       [0..<(n + part_size - 1) div part_size]"

text \<open>
  Modelled from the spec: the gateway call \<^verbatim>\<open>GetObjectRange\<close>, which is answered by
  the S3 service: the bytes of the object in the range given as (offset, length).
\<close>

definition GetObjectRange :: "byte list \<Rightarrow> nat \<times> nat \<Rightarrow> byte list" where
  "GetObjectRange bs rng = take (snd rng) (drop (fst rng) bs)"

text \<open>
  Modelled from the spec: the random-access sink, which the caller of \<^verbatim>\<open>Download\<close>
  supplies: \<^verbatim>\<open>WriteAt(p, off)\<close> stores the bytes \<open>p\<close> at the offsets from \<open>off\<close>
  on and leaves every other offset as it was.
\<close>

definition WriteAt :: "sink \<Rightarrow> byte list \<Rightarrow> nat \<Rightarrow> sink" where
  "WriteAt w p off = (\<lambda>i. if off \<le> i \<and> i < off + length p then Some (p ! (i - off)) else w i)"

text \<open>
  Modelled from the spec: the part workers of the download half of the Transfer Pipeline,
  which is the SDK's \<^verbatim>\<open>manager.Downloader\<close>: each part is fetched by a range read
  and written to the sink at its offset.
\<close>

definition download_parts :: "byte list \<Rightarrow> nat \<Rightarrow> sink \<Rightarrow> sink" where
  "download_parts bs part_size w =
     fold (\<lambda>rng w. WriteAt w (GetObjectRange bs rng) (fst rng))
       (part_ranges (length bs) part_size) w"

text \<open>
  Modelled from the spec: \<^verbatim>\<open>manager.Downloader.Download\<close>, which is the SDK's. A
  missing object is reported as "no such key" before any part is attempted.
\<close>

definition mem_Download :: "transfer \<Rightarrow> sink \<Rightarrow> ObjectInput \<Rightarrow> store \<Rightarrow> error option \<times> sink" where
  "mem_Download t w input st =
     (case st (obj_Bucket input, obj_Key input) of
        None \<Rightarrow> (Some (ErrNoSuchKey ''The specified key does not exist.''), w)
      | Some obj \<Rightarrow>
          if PartSize t = 0 then (Some (Plain ''part size is zero''), w)
          else (None, download_parts (data obj) (PartSize t) w))"

text \<open>
  Modelled from the spec: the gateway call \<^verbatim>\<open>GetObject\<close>, which is the SDK's
  \<^verbatim>\<open>s3.Client.GetObject\<close>: a readable stream of the object, or "no such key".
\<close>

definition mem_GetObject :: "ObjectInput \<Rightarrow> store \<Rightarrow> error + reader" where
  "mem_GetObject input st =
     (case st (obj_Bucket input, obj_Key input) of
        None \<Rightarrow> Inl (ErrNoSuchKey ''The specified key does not exist.'')
      | Some obj \<Rightarrow> Inr (Source [data obj] EOF False))"

text \<open>
  Modelled from the spec: the gateway call \<^verbatim>\<open>HeadObject\<close>, which is the SDK's
  \<^verbatim>\<open>s3.Client.HeadObject\<close>: success for an object that exists, "not found" otherwise.
\<close>

definition mem_HeadObject :: "ObjectInput \<Rightarrow> store \<Rightarrow> error option" where
  "mem_HeadObject input st =
     (case st (obj_Bucket input, obj_Key input) of
        None \<Rightarrow> Some (ErrNotFoundHead ''Not Found'')
      | Some obj \<Rightarrow> None)"

text \<open>
  Modelled from the spec: the gateway call \<^verbatim>\<open>DeleteObject\<close>, which is the SDK's
  \<^verbatim>\<open>s3.Client.DeleteObject\<close>: afterwards no object is stored under the identity.
\<close>

definition mem_DeleteObject :: "ObjectInput \<Rightarrow> store \<Rightarrow> error option \<times> store" where
  "mem_DeleteObject input st = (None, st((obj_Bucket input, obj_Key input) := None))"

text \<open>
  Modelled from the spec: the Backend Gateway as a whole, which is the AWS SDK and the
  S3 service.
\<close>

definition mem_Client :: "store Client" where
  "mem_Client =
     \<lparr>GetObject = mem_GetObject, HeadObject = mem_HeadObject, DeleteObject = mem_DeleteObject,
      manager_Upload = mem_Upload, manager_Download = mem_Download\<rparr>"

section \<open>Streams: what reading delivers\<close>

lemma Read_stream:
  "Read r k = ((bs, err), r') \<Longrightarrow>
     stream_of r = (bs @ fst (stream_of r'), snd (stream_of r')) \<and>
     (\<forall>e. err = Some e \<longrightarrow> stream_of r' = ([], e))"
proof (induction r k arbitrary: bs err r' rule: Read_induct2)
  case (MultiCons r rs k)
  obtain bs1 err1 r1 where r1: "Read r k = ((bs1, err1), r1)" by (metis prod.exhaust)
  with MultiCons show ?case
    by (auto simp: Read_MultiReader_Cons split: if_splits prod.splits)
next
  case (Flatten rs k)
  then show ?case by (auto split: prod.splits)
qed (auto split: if_splits)

lemma ReadFull_loop_stream:
  assumes "ReadFull_loop r L buf err = ((buf', err'), r')"
    and "length buf \<le> L"
    and "\<And>e. err = Some e \<Longrightarrow> stream_of r = ([], e)"
  shows "buf' = buf @ take (L - length buf) (fst (stream_of r))
       \<and> stream_of r' = (drop (L - length buf) (fst (stream_of r)), snd (stream_of r))
       \<and> (\<forall>e. err' = Some e \<longrightarrow> stream_of r' = ([], e))
       \<and> (length buf' < L \<longrightarrow> err' \<noteq> None)"
  using assms
proof (induction r L buf err rule: ReadFull_loop.induct)
  case (1 r L buf err)
  show ?case
  proof (cases "length buf < L \<and> err = None")
    case True
    obtain bs e1 r1 where rd: "Read r (L - length buf) = ((bs, e1), r1)"
      by (metis prod.exhaust)
    from 1(2) True rd have l: "ReadFull_loop r1 L (buf @ bs) e1 = ((buf', err'), r')"
      by (simp add: ReadFull_loop.simps[of r])
    from Read_length[OF rd] True have len: "length (buf @ bs) \<le> L" by auto
    from Read_stream[OF rd] have
      s: "stream_of r = (bs @ fst (stream_of r1), snd (stream_of r1))"
      and e: "\<And>e. e1 = Some e \<Longrightarrow> stream_of r1 = ([], e)" by auto
    from 1(1)[OF True rd[symmetric] refl l len e]
    have IH: "buf' = (buf @ bs) @ take (L - length (buf @ bs)) (fst (stream_of r1))"
      "stream_of r' = (drop (L - length (buf @ bs)) (fst (stream_of r1)), snd (stream_of r1))"
      "\<forall>e. err' = Some e \<longrightarrow> stream_of r' = ([], e)"
      "length buf' < L \<longrightarrow> err' \<noteq> None"
      by auto
    from Read_length[OF rd] have "length bs \<le> L - length buf" .
    with IH s show ?thesis by (auto simp: drop_append)
  next
    case False
    with 1(2) have eq: "buf' = buf" "err' = err" "r' = r" by (simp_all add: ReadFull_loop.simps[of r])
    show ?thesis
    proof (cases err)
      case None
      with False 1(3) have "length buf = L" by simp
      with eq None show ?thesis by simp
    next
      case (Some e)
      with 1(4) have "stream_of r = ([], e)" by simp
      with eq Some show ?thesis by simp
    qed
  qed
qed

lemma ReadFull_stream:
  assumes "ReadFull r L = ((buf, err), r')"
  shows "buf = take L (fst (stream_of r))"
    and "stream_of r' = (drop L (fst (stream_of r)), snd (stream_of r))"
    and "err = (if L \<le> length (fst (stream_of r)) then None
                else if fst (stream_of r) \<noteq> [] \<and> snd (stream_of r) = EOF then Some ErrUnexpectedEOF
                else Some (snd (stream_of r)))"
proof -
  obtain b e where l: "ReadFull_loop r L [] None = ((b, e), r')"
    using assms by (auto simp: ReadFull_def split: prod.splits)
  from ReadFull_loop_stream[OF l] have
    f: "b = take L (fst (stream_of r))"
       "stream_of r' = (drop L (fst (stream_of r)), snd (stream_of r))"
       "\<forall>x. e = Some x \<longrightarrow> stream_of r' = ([], x)"
       "length b < L \<longrightarrow> e \<noteq> None"
    by auto
  from assms l have r: "buf = b"
    "err = (if L \<le> length b then None else if b \<noteq> [] \<and> e = Some EOF then Some ErrUnexpectedEOF else e)"
    by (auto simp: ReadFull_def)
  show "buf = take L (fst (stream_of r))" using r f by simp
  show "stream_of r' = (drop L (fst (stream_of r)), snd (stream_of r))" using f by simp
  show "err = (if L \<le> length (fst (stream_of r)) then None
                else if fst (stream_of r) \<noteq> [] \<and> snd (stream_of r) = EOF then Some ErrUnexpectedEOF
                else Some (snd (stream_of r)))"
  proof (cases "L \<le> length (fst (stream_of r))")
    case True
    with r f show ?thesis by simp
  next
    case False
    with f have "length b < L" by simp
    with f obtain x where x: "e = Some x" by auto
    with f have "stream_of r' = ([], x)" by simp
    with f(2) have "snd (stream_of r) = x" by simp
    with False r f x show ?thesis by auto
  qed
qed

lemma read_to_end_stream:
  "0 < k \<Longrightarrow> read_to_end r k acc = (acc @ fst (stream_of r), snd (stream_of r))"
proof (induction r k acc rule: read_to_end.induct)
  case (1 r k acc)
  obtain bs e r1 where rd: "Read r k = ((bs, e), r1)" by (metis prod.exhaust)
  from Read_stream[OF rd] have
      s: "stream_of r = (bs @ fst (stream_of r1), snd (stream_of r1))"
      and e: "\<And>x. e = Some x \<Longrightarrow> stream_of r1 = ([], x)" by auto
  show ?case
  proof (cases e)
    case None
    with 1(1)[OF _ rd[symmetric] refl] 1(2) have "read_to_end r1 k (acc @ bs) = ((acc @ bs) @ fst (stream_of r1), snd (stream_of r1))"
      by simp
    with None rd 1(2) s show ?thesis by (simp add: read_to_end.simps[of r])
  next
    case (Some x)
    with rd 1(2) s e show ?thesis by (simp add: read_to_end.simps[of r])
  qed
qed

lemma sniff_stream:
  assumes "sniff D options r = Inr (options', r')"
  shows "stream_of r' = stream_of r"
proof (cases "ContentType options = '''' \<and> AutoContentType options")
  case True
  obtain buf err r1 where rf: "ReadFull r 512 = ((buf, err), r1)" by (metis prod.exhaust)
  from ReadFull_stream[OF rf] have
    b: "buf = take 512 (fst (stream_of r))"
    and s: "stream_of r1 = (drop 512 (fst (stream_of r)), snd (stream_of r))" by auto
  from assms True rf have "(options', r') = sniffed D options buf r1"
    by (auto simp: sniff_def split: option.splits if_splits)
  then have "stream_of r' = (buf @ fst (stream_of r1), snd (stream_of r1))"
    by (auto simp: sniffed_def split: if_splits prod.splits)
  with b s show ?thesis by (simp add: prod_eq_iff)
next
  case False
  with assms show ?thesis by (auto simp: sniff_def)
qed

section \<open>Properties\<close>

subsection \<open>Save options\<close>

lemma apply_opts_foldl: "apply_opts options opts = foldl (\<lambda>options opt. opt options) options opts"
  by (induction opts arbitrary: options) simp_all

lemma apply_opts_append: "apply_opts options (xs @ ys) = apply_opts (apply_opts options xs) ys"
  by (induction xs arbitrary: options) simp_all

lemma apply_opts_keep_ContentType:
  "\<forall>opt\<in>set ys. \<forall>options. ContentType (opt options) = ContentType options \<Longrightarrow>
   ContentType (apply_opts options ys) = ContentType options"
  by (induction ys arbitrary: options) simp_all

text \<open>
  C10. The resolved \<^verbatim>\<open>SaveOptions\<close> value is the result of applying the options in list
  order to the zero value. So a later option wins: when \<open>WithContentType b\<close> is
  followed only by options that leave the content type alone, the resolved content type
  is \<open>b\<close>, whatever came before it; in particular \<open>WithContentType a\<close> followed by
  \<open>WithContentType b\<close> resolves to \<open>b\<close>.
\<close>

theorem resolve_options_later_wins:
  "resolve_options opts = foldl (\<lambda>options opt. opt options) zero_SaveOptions opts
   \<and> ((\<forall>opt\<in>set ys. \<forall>options. ContentType (opt options) = ContentType options) \<longrightarrow>
        ContentType (resolve_options (xs @ WithContentType b # ys)) = b)
   \<and> ContentType (resolve_options (xs @ [WithContentType a, WithContentType b])) = b"
  by (simp add: resolve_options_def apply_opts_foldl[symmetric] apply_opts_append
        apply_opts_keep_ContentType WithContentType_def)

theorem resolve_options_later_wins_witness:
  "ContentType (resolve_options [WithContentType ''text/plain'', WithContentType ''image/png'',
      WithAutoContentType]) = ''image/png''
   \<and> AutoContentType (resolve_options [WithContentType ''text/plain'', WithContentType ''image/png'',
      WithAutoContentType])"
  using resolve_options_later_wins[of "[WithContentType ''text/plain'', WithContentType ''image/png'',
      WithAutoContentType]" "[WithAutoContentType]" "[WithContentType ''text/plain'']" "''image/png''" "''x''"]
  by (simp add: WithAutoContentType_def WithContentType_def zero_SaveOptions_def)

subsection \<open>Construction\<close>

lemma NewS3Storage_transfer:
  "NewS3Storage load new cfg = Inr s \<Longrightarrow>
     uploader s = \<lparr>PartSize = 5242880, Concurrency = 1\<rparr> \<and>
     downloader s = \<lparr>PartSize = 5242880, Concurrency = 1\<rparr>"
  by (auto simp: NewS3Storage_def Let_def NewUploader_def NewDownloader_def sdk_default_transfer_def
      split: sum.splits if_splits)

text \<open>
  C9, as the code has it. For every configuration for which \<^verbatim>\<open>NewS3Storage\<close> returns a
  storage, the uploader and the downloader both work with parts of 5 MiB and one
  worker: \<^verbatim>\<open>Config\<close> has no field for either, and the constructor writes the two
  constants.
\<close>

theorem NewS3Storage_fixed_part_size:
  "NewS3Storage load new cfg = Inr s \<Longrightarrow>
     PartSize (uploader s) = 5 * 1024 * 1024 \<and> Concurrency (uploader s) = 1 \<and>
     PartSize (downloader s) = 5 * 1024 * 1024 \<and> Concurrency (downloader s) = 1"
  by (drule NewS3Storage_transfer) simp

theorem NewS3Storage_fixed_part_size_witness:
  "NewS3Storage (\<lambda>opts. Inr opts) (\<lambda>c. (\<lparr>GetObject = \<lambda>input st. Inl (Plain ''offline''), HeadObject = \<lambda>input st. Some (Plain ''offline''), DeleteObject = \<lambda>input st. (Some (Plain ''offline''), st), manager_Upload = \<lambda>t input st. (Some (Plain ''offline''), st), manager_Download = \<lambda>t w input st. (Some (Plain ''offline''), w)\<rparr> :: unit Client))
      \<lparr>cfg_Bucket = ''media'', Region = ''us-east-1'', Endpoint = '''', AccessKey = ''id'',
       SecretKey = ''key''\<rparr>
    = Inr \<lparr>Bucket = ''media'', client = \<lparr>GetObject = \<lambda>input st. Inl (Plain ''offline''), HeadObject = \<lambda>input st. Some (Plain ''offline''), DeleteObject = \<lambda>input st. (Some (Plain ''offline''), st), manager_Upload = \<lambda>t input st. (Some (Plain ''offline''), st), manager_Download = \<lambda>t w input st. (Some (Plain ''offline''), w)\<rparr>, uploader = \<lparr>PartSize = 5242880, Concurrency = 1\<rparr>, downloader = \<lparr>PartSize = 5242880, Concurrency = 1\<rparr>\<rparr>
   \<and> PartSize (uploader \<lparr>Bucket = ''media'', client = (\<lparr>GetObject = \<lambda>input st. Inl (Plain ''offline''), HeadObject = \<lambda>input st. Some (Plain ''offline''), DeleteObject = \<lambda>input st. (Some (Plain ''offline''), st), manager_Upload = \<lambda>t input st. (Some (Plain ''offline''), st), manager_Download = \<lambda>t w input st. (Some (Plain ''offline''), w)\<rparr> :: unit Client), uploader = \<lparr>PartSize = 5242880, Concurrency = 1\<rparr>,
                           downloader = \<lparr>PartSize = 5242880, Concurrency = 1\<rparr>\<rparr>) = 5 * 1024 * 1024"
proof -
  have h: "NewS3Storage (\<lambda>opts. Inr opts) (\<lambda>c. (\<lparr>GetObject = \<lambda>input st. Inl (Plain ''offline''), HeadObject = \<lambda>input st. Some (Plain ''offline''), DeleteObject = \<lambda>input st. (Some (Plain ''offline''), st), manager_Upload = \<lambda>t input st. (Some (Plain ''offline''), st), manager_Download = \<lambda>t w input st. (Some (Plain ''offline''), w)\<rparr> :: unit Client))
      \<lparr>cfg_Bucket = ''media'', Region = ''us-east-1'', Endpoint = '''', AccessKey = ''id'',
       SecretKey = ''key''\<rparr>
    = Inr \<lparr>Bucket = ''media'', client = \<lparr>GetObject = \<lambda>input st. Inl (Plain ''offline''), HeadObject = \<lambda>input st. Some (Plain ''offline''), DeleteObject = \<lambda>input st. (Some (Plain ''offline''), st), manager_Upload = \<lambda>t input st. (Some (Plain ''offline''), st), manager_Download = \<lambda>t w input st. (Some (Plain ''offline''), w)\<rparr>, uploader = \<lparr>PartSize = 5242880, Concurrency = 1\<rparr>, downloader = \<lparr>PartSize = 5242880, Concurrency = 1\<rparr>\<rparr>"
    by (simp add: NewS3Storage_def Let_def NewUploader_def NewDownloader_def sdk_default_transfer_def)
  from NewS3Storage_fixed_part_size[OF h] h show ?thesis by simp
qed

text \<open>
  C9 as the spec states it fails: no loader, client factory or configuration makes
  \<^verbatim>\<open>NewS3Storage\<close> return a storage with another part size or concurrency.
\<close>

theorem NewS3Storage_configurable_counterexample:
  "\<not> (\<exists>(load :: LoadOption list \<Rightarrow> error + unit) (new :: unit \<Rightarrow> unit Client) cfg s.
        NewS3Storage load new cfg = Inr s \<and>
        (PartSize (uploader s) \<noteq> 5 * 1024 * 1024 \<or> Concurrency (uploader s) \<noteq> 1 \<or>
         PartSize (downloader s) \<noteq> 5 * 1024 * 1024 \<or> Concurrency (downloader s) \<noteq> 1))"
  by (auto dest!: NewS3Storage_transfer)

subsection \<open>Error translation\<close>

lemma errors_Is_refl: "errors_Is e e"
  by (cases e) simp_all

text \<open>
  C3. When the backend call fails with an error in whose chain \<^verbatim>\<open>errors.As\<close> finds a
  \<^verbatim>\<open>*types.NoSuchKey\<close>, \<^verbatim>\<open>Open\<close> and \<^verbatim>\<open>Download\<close> return \<open>ErrNotFound\<close>. For
  every other backend failure they return an error that is not \<open>ErrNotFound\<close>, whose
  message names the key and the bucket, and which wraps the backend's error: \<^verbatim>\<open>errors.Is\<close>
  reaches it, and \<^verbatim>\<open>errors.As\<close> finds in it what it finds in the cause.
\<close>

theorem Open_Download_error_translation:
  "(GetObject (client s) \<lparr>obj_Bucket = Bucket s, obj_Key = path\<rparr> st = Inl err \<longrightarrow>
      (as_NoSuchKey err \<longrightarrow> Open s path st = Inl ErrNotFound) \<and>
      (\<not> as_NoSuchKey err \<longrightarrow>
         Open s path st =
           Inl (Wrap (''failed to open '' @ path @ '' from '' @ Bucket s @ '': '' @ Error err) err) \<and>
         (\<exists>e. Open s path st = Inl e \<and> e \<noteq> ErrNotFound \<and> errors_Is e err \<and>
              as_APIError e = as_APIError err \<and> as_NotFound e = as_NotFound err)))
   \<and> (manager_Download (client s) (downloader s) w \<lparr>obj_Bucket = Bucket s, obj_Key = path\<rparr> st
         = (Some derr, w') \<longrightarrow>
      (as_NoSuchKey derr \<longrightarrow> fst (Download s path w st) = Some ErrNotFound) \<and>
      (\<not> as_NoSuchKey derr \<longrightarrow>
         fst (Download s path w st) =
           Some (Wrap (''failed to download '' @ path @ '' from '' @ Bucket s @ '': '' @ Error derr) derr) \<and>
         (\<exists>e. fst (Download s path w st) = Some e \<and> e \<noteq> ErrNotFound \<and> errors_Is e derr \<and>
              as_APIError e = as_APIError derr \<and> as_NotFound e = as_NotFound derr)))"
  by (simp add: Open_def Download_def Errorf_w_def errors_Is_refl)

theorem Open_Download_error_translation_witness:
  "Open \<lparr>Bucket = ''media'',
          client = (\<lparr>GetObject = \<lambda>input st. Inl (Plain ''offline''), HeadObject = \<lambda>input st. Some (Plain ''offline''), DeleteObject = \<lambda>input st. (Some (Plain ''offline''), st), manager_Upload = \<lambda>t input st. (Some (Plain ''offline''), st), manager_Download = \<lambda>t w input st. (Some (Plain ''offline''), w)\<rparr> :: unit Client)
            \<lparr>GetObject := \<lambda>input st. Inl (ErrNoSuchKey ''The specified key does not exist.'')\<rparr>,
          uploader = \<lparr>PartSize = 5242880, Concurrency = 1\<rparr>, downloader = \<lparr>PartSize = 5242880, Concurrency = 1\<rparr>\<rparr> ''a/b.txt'' ()
     = Inl ErrNotFound
   \<and> fst (Download \<lparr>Bucket = ''media'',
          client = (\<lparr>GetObject = \<lambda>input st. Inl (Plain ''offline''), HeadObject = \<lambda>input st. Some (Plain ''offline''), DeleteObject = \<lambda>input st. (Some (Plain ''offline''), st), manager_Upload = \<lambda>t input st. (Some (Plain ''offline''), st), manager_Download = \<lambda>t w input st. (Some (Plain ''offline''), w)\<rparr> :: unit Client)
            \<lparr>manager_Download := \<lambda>t w input st.
               (Some (Wrap ''operation error S3: GetObject, https response error StatusCode: 404''
                        (ErrNoSuchKey ''The specified key does not exist.'')), w)\<rparr>,
          uploader = \<lparr>PartSize = 5242880, Concurrency = 1\<rparr>, downloader = \<lparr>PartSize = 5242880, Concurrency = 1\<rparr>\<rparr> ''a/b.txt'' (\<lambda>i. None) ())
     = Some ErrNotFound
   \<and> Open \<lparr>Bucket = ''media'',
          client = (\<lparr>GetObject = \<lambda>input st. Inl (Plain ''offline''), HeadObject = \<lambda>input st. Some (Plain ''offline''), DeleteObject = \<lambda>input st. (Some (Plain ''offline''), st), manager_Upload = \<lambda>t input st. (Some (Plain ''offline''), st), manager_Download = \<lambda>t w input st. (Some (Plain ''offline''), w)\<rparr> :: unit Client)
            \<lparr>GetObject := \<lambda>input st. Inl (APIError ''AccessDenied'' ''Access Denied'')\<rparr>,
          uploader = \<lparr>PartSize = 5242880, Concurrency = 1\<rparr>, downloader = \<lparr>PartSize = 5242880, Concurrency = 1\<rparr>\<rparr> ''a/b.txt'' ()
     = Inl (Wrap ''failed to open a/b.txt from media: api error AccessDenied: Access Denied''
              (APIError ''AccessDenied'' ''Access Denied''))
   \<and> fst (Download \<lparr>Bucket = ''media'',
          client = (\<lparr>GetObject = \<lambda>input st. Inl (Plain ''offline''), HeadObject = \<lambda>input st. Some (Plain ''offline''), DeleteObject = \<lambda>input st. (Some (Plain ''offline''), st), manager_Upload = \<lambda>t input st. (Some (Plain ''offline''), st), manager_Download = \<lambda>t w input st. (Some (Plain ''offline''), w)\<rparr> :: unit Client)
            \<lparr>manager_Download := \<lambda>t w input st.
               (Some (APIError ''AccessDenied'' ''Access Denied''), w)\<rparr>,
          uploader = \<lparr>PartSize = 5242880, Concurrency = 1\<rparr>, downloader = \<lparr>PartSize = 5242880, Concurrency = 1\<rparr>\<rparr> ''a/b.txt'' (\<lambda>i. None) ())
     = Some (Wrap ''failed to download a/b.txt from media: api error AccessDenied: Access Denied''
              (APIError ''AccessDenied'' ''Access Denied''))"
  using Open_Download_error_translation[
      where s = "\<lparr>Bucket = ''media'',
          client = (\<lparr>GetObject = \<lambda>input st. Inl (Plain ''offline''), HeadObject = \<lambda>input st. Some (Plain ''offline''), DeleteObject = \<lambda>input st. (Some (Plain ''offline''), st), manager_Upload = \<lambda>t input st. (Some (Plain ''offline''), st), manager_Download = \<lambda>t w input st. (Some (Plain ''offline''), w)\<rparr> :: unit Client)
            \<lparr>GetObject := \<lambda>input st. Inl (ErrNoSuchKey ''The specified key does not exist.'')\<rparr>,
          uploader = \<lparr>PartSize = 5242880, Concurrency = 1\<rparr>, downloader = \<lparr>PartSize = 5242880, Concurrency = 1\<rparr>\<rparr>"
        and path = "''a/b.txt''" and st = "()"
        and err = "ErrNoSuchKey ''The specified key does not exist.''"
        and derr = "Plain ''offline''" and w = "\<lambda>i. None" and w' = "\<lambda>i. None"]
    Open_Download_error_translation[
      where s = "\<lparr>Bucket = ''media'',
          client = (\<lparr>GetObject = \<lambda>input st. Inl (Plain ''offline''), HeadObject = \<lambda>input st. Some (Plain ''offline''), DeleteObject = \<lambda>input st. (Some (Plain ''offline''), st), manager_Upload = \<lambda>t input st. (Some (Plain ''offline''), st), manager_Download = \<lambda>t w input st. (Some (Plain ''offline''), w)\<rparr> :: unit Client)
            \<lparr>manager_Download := \<lambda>t w input st.
               (Some (Wrap ''operation error S3: GetObject, https response error StatusCode: 404''
                        (ErrNoSuchKey ''The specified key does not exist.'')), w)\<rparr>,
          uploader = \<lparr>PartSize = 5242880, Concurrency = 1\<rparr>, downloader = \<lparr>PartSize = 5242880, Concurrency = 1\<rparr>\<rparr>"
        and path = "''a/b.txt''" and st = "()"
        and err = "Plain ''offline''"
        and derr = "Wrap ''operation error S3: GetObject, https response error StatusCode: 404''
                        (ErrNoSuchKey ''The specified key does not exist.'')"
        and w = "\<lambda>i. None" and w' = "\<lambda>i. None"]
    Open_Download_error_translation[
      where s = "\<lparr>Bucket = ''media'',
          client = (\<lparr>GetObject = \<lambda>input st. Inl (Plain ''offline''), HeadObject = \<lambda>input st. Some (Plain ''offline''), DeleteObject = \<lambda>input st. (Some (Plain ''offline''), st), manager_Upload = \<lambda>t input st. (Some (Plain ''offline''), st), manager_Download = \<lambda>t w input st. (Some (Plain ''offline''), w)\<rparr> :: unit Client)
            \<lparr>GetObject := \<lambda>input st. Inl (APIError ''AccessDenied'' ''Access Denied'')\<rparr>,
          uploader = \<lparr>PartSize = 5242880, Concurrency = 1\<rparr>, downloader = \<lparr>PartSize = 5242880, Concurrency = 1\<rparr>\<rparr>"
        and path = "''a/b.txt''" and st = "()"
        and err = "APIError ''AccessDenied'' ''Access Denied''"
        and derr = "Plain ''offline''" and w = "\<lambda>i. None" and w' = "\<lambda>i. None"]
    Open_Download_error_translation[
      where s = "\<lparr>Bucket = ''media'',
          client = (\<lparr>GetObject = \<lambda>input st. Inl (Plain ''offline''), HeadObject = \<lambda>input st. Some (Plain ''offline''), DeleteObject = \<lambda>input st. (Some (Plain ''offline''), st), manager_Upload = \<lambda>t input st. (Some (Plain ''offline''), st), manager_Download = \<lambda>t w input st. (Some (Plain ''offline''), w)\<rparr> :: unit Client)
            \<lparr>manager_Download := \<lambda>t w input st.
               (Some (APIError ''AccessDenied'' ''Access Denied''), w)\<rparr>,
          uploader = \<lparr>PartSize = 5242880, Concurrency = 1\<rparr>, downloader = \<lparr>PartSize = 5242880, Concurrency = 1\<rparr>\<rparr>"
        and path = "''a/b.txt''" and st = "()"
        and err = "Plain ''offline''"
        and derr = "APIError ''AccessDenied'' ''Access Denied''"
        and w = "\<lambda>i. None" and w' = "\<lambda>i. None"]
  by simp

text \<open>
  C4. \<^verbatim>\<open>Exists\<close> returns \<open>(True, None)\<close> when the head call succeeds, \<open>(False, None)\<close>
  when it fails with an error in whose chain \<^verbatim>\<open>errors.As\<close> finds a \<^verbatim>\<open>*types.NotFound\<close>,
  and \<open>False\<close> with an error wrapping the cause for every other failure.
\<close>

theorem Exists_translation:
  "(HeadObject (client s) \<lparr>obj_Bucket = Bucket s, obj_Key = path\<rparr> st = None \<longrightarrow>
      Exists s path st = (True, None))
   \<and> (HeadObject (client s) \<lparr>obj_Bucket = Bucket s, obj_Key = path\<rparr> st = Some err \<longrightarrow>
        (as_NotFound err \<longrightarrow> Exists s path st = (False, None)) \<and>
        (\<not> as_NotFound err \<longrightarrow>
           Exists s path st =
             (False, Some (Wrap (''failed to check existence of '' @ path @ '' in '' @ Bucket s @ '': ''
                                  @ Error err) err)) \<and>
           (\<exists>e. snd (Exists s path st) = Some e \<and> errors_Is e err)))"
  by (simp add: Exists_def Errorf_w_def errors_Is_refl)

theorem Exists_translation_witness:
  "Exists \<lparr>Bucket = ''media'',
          client = (\<lparr>GetObject = \<lambda>input st. Inl (Plain ''offline''), HeadObject = \<lambda>input st. Some (Plain ''offline''), DeleteObject = \<lambda>input st. (Some (Plain ''offline''), st), manager_Upload = \<lambda>t input st. (Some (Plain ''offline''), st), manager_Download = \<lambda>t w input st. (Some (Plain ''offline''), w)\<rparr> :: unit Client)\<lparr>HeadObject := \<lambda>input st. None\<rparr>,
          uploader = \<lparr>PartSize = 5242880, Concurrency = 1\<rparr>, downloader = \<lparr>PartSize = 5242880, Concurrency = 1\<rparr>\<rparr> ''a/b.txt'' ()
     = (True, None)
   \<and> Exists \<lparr>Bucket = ''media'',
          client = (\<lparr>GetObject = \<lambda>input st. Inl (Plain ''offline''), HeadObject = \<lambda>input st. Some (Plain ''offline''), DeleteObject = \<lambda>input st. (Some (Plain ''offline''), st), manager_Upload = \<lambda>t input st. (Some (Plain ''offline''), st), manager_Download = \<lambda>t w input st. (Some (Plain ''offline''), w)\<rparr> :: unit Client)
            \<lparr>HeadObject := \<lambda>input st.
               Some (Wrap ''operation error S3: HeadObject, https response error StatusCode: 404''
                       (ErrNotFoundHead ''Not Found''))\<rparr>,
          uploader = \<lparr>PartSize = 5242880, Concurrency = 1\<rparr>, downloader = \<lparr>PartSize = 5242880, Concurrency = 1\<rparr>\<rparr> ''a/b.txt'' ()
     = (False, None)
   \<and> Exists \<lparr>Bucket = ''media'', client = (\<lparr>GetObject = \<lambda>input st. Inl (Plain ''offline''), HeadObject = \<lambda>input st. Some (Plain ''offline''), DeleteObject = \<lambda>input st. (Some (Plain ''offline''), st), manager_Upload = \<lambda>t input st. (Some (Plain ''offline''), st), manager_Download = \<lambda>t w input st. (Some (Plain ''offline''), w)\<rparr> :: unit Client),
          uploader = \<lparr>PartSize = 5242880, Concurrency = 1\<rparr>, downloader = \<lparr>PartSize = 5242880, Concurrency = 1\<rparr>\<rparr> ''a/b.txt'' ()
     = (False, Some (Wrap ''failed to check existence of a/b.txt in media: offline''
                       (Plain ''offline'')))"
  using Exists_translation[
      where s = "\<lparr>Bucket = ''media'',
          client = (\<lparr>GetObject = \<lambda>input st. Inl (Plain ''offline''), HeadObject = \<lambda>input st. Some (Plain ''offline''), DeleteObject = \<lambda>input st. (Some (Plain ''offline''), st), manager_Upload = \<lambda>t input st. (Some (Plain ''offline''), st), manager_Download = \<lambda>t w input st. (Some (Plain ''offline''), w)\<rparr> :: unit Client)\<lparr>HeadObject := \<lambda>input st. None\<rparr>,
          uploader = \<lparr>PartSize = 5242880, Concurrency = 1\<rparr>, downloader = \<lparr>PartSize = 5242880, Concurrency = 1\<rparr>\<rparr>"
        and path = "''a/b.txt''" and st = "()" and err = EOF]
    Exists_translation[
      where s = "\<lparr>Bucket = ''media'',
          client = (\<lparr>GetObject = \<lambda>input st. Inl (Plain ''offline''), HeadObject = \<lambda>input st. Some (Plain ''offline''), DeleteObject = \<lambda>input st. (Some (Plain ''offline''), st), manager_Upload = \<lambda>t input st. (Some (Plain ''offline''), st), manager_Download = \<lambda>t w input st. (Some (Plain ''offline''), w)\<rparr> :: unit Client)
            \<lparr>HeadObject := \<lambda>input st.
               Some (Wrap ''operation error S3: HeadObject, https response error StatusCode: 404''
                       (ErrNotFoundHead ''Not Found''))\<rparr>,
          uploader = \<lparr>PartSize = 5242880, Concurrency = 1\<rparr>, downloader = \<lparr>PartSize = 5242880, Concurrency = 1\<rparr>\<rparr>"
        and path = "''a/b.txt''" and st = "()"
        and err = "Wrap ''operation error S3: HeadObject, https response error StatusCode: 404''
                       (ErrNotFoundHead ''Not Found'')"]
    Exists_translation[
      where s = "\<lparr>Bucket = ''media'', client = (\<lparr>GetObject = \<lambda>input st. Inl (Plain ''offline''), HeadObject = \<lambda>input st. Some (Plain ''offline''), DeleteObject = \<lambda>input st. (Some (Plain ''offline''), st), manager_Upload = \<lambda>t input st. (Some (Plain ''offline''), st), manager_Download = \<lambda>t w input st. (Some (Plain ''offline''), w)\<rparr> :: unit Client),
          uploader = \<lparr>PartSize = 5242880, Concurrency = 1\<rparr>, downloader = \<lparr>PartSize = 5242880, Concurrency = 1\<rparr>\<rparr>"
        and path = "''a/b.txt''" and st = "()" and err = "Plain ''offline''"]
  by simp

text \<open>
  C8, as the code has it. When the backend answers a delete with a "no such key" error,
  \<^verbatim>\<open>Delete\<close> returns the same wrapped error as for any other failure: its message
  names the key and the bucket, it wraps the backend's error (so \<^verbatim>\<open>errors.As\<close> still
  finds the \<^verbatim>\<open>*types.NoSuchKey\<close>), and it is not \<open>ErrNotFound\<close>, nor does
  \<^verbatim>\<open>errors.Is\<close> find \<open>ErrNotFound\<close> in it.
\<close>

theorem Delete_wraps_NoSuchKey:
  "DeleteObject (client s) \<lparr>obj_Bucket = Bucket s, obj_Key = path\<rparr> st = (Some err, st') \<Longrightarrow>
   as_NoSuchKey err \<Longrightarrow>
     Delete s path st =
       (Some (Wrap (''couldn't delete file '' @ path @ '' from '' @ Bucket s @ '': '' @ Error err) err), st')
     \<and> fst (Delete s path st) \<noteq> Some ErrNotFound
     \<and> \<not> errors_Is (Wrap (''couldn't delete file '' @ path @ '' from '' @ Bucket s @ '': '' @ Error err) err)
           ErrNotFound
     \<and> as_NoSuchKey (Wrap (''couldn't delete file '' @ path @ '' from '' @ Bucket s @ '': '' @ Error err) err)"
proof -
  assume d: "DeleteObject (client s) \<lparr>obj_Bucket = Bucket s, obj_Key = path\<rparr> st = (Some err, st')"
    and n: "as_NoSuchKey err"
  have "\<not> errors_Is e ErrNotFound" if "as_NoSuchKey e" for e
    using that by (induction e) auto
  with n have "\<not> errors_Is err ErrNotFound" by simp
  with d n show ?thesis by (simp add: Delete_def Errorf_w_def)
qed

text \<open>
  C8 as the spec states it fails: on a backend whose delete call reports "no such key",
  \<^verbatim>\<open>Delete\<close> does not return \<open>ErrNotFound\<close>.
\<close>

theorem Delete_NotFound_counterexample:
  "fst (Delete \<lparr>Bucket = ''media'',
          client = (\<lparr>GetObject = \<lambda>input st. Inl (Plain ''offline''), HeadObject = \<lambda>input st. Some (Plain ''offline''), DeleteObject = \<lambda>input st. (Some (Plain ''offline''), st), manager_Upload = \<lambda>t input st. (Some (Plain ''offline''), st), manager_Download = \<lambda>t w input st. (Some (Plain ''offline''), w)\<rparr> :: unit Client)
            \<lparr>DeleteObject := \<lambda>input st.
               (Some (ErrNoSuchKey ''The specified key does not exist.''), st)\<rparr>,
          uploader = \<lparr>PartSize = 5242880, Concurrency = 1\<rparr>, downloader = \<lparr>PartSize = 5242880, Concurrency = 1\<rparr>\<rparr> ''a/b.txt'' ())
     \<noteq> Some ErrNotFound"
  by (simp add: Delete_def Errorf_w_def)

theorem Delete_wraps_NoSuchKey_witness:
  "Delete \<lparr>Bucket = ''media'',
          client = (\<lparr>GetObject = \<lambda>input st. Inl (Plain ''offline''), HeadObject = \<lambda>input st. Some (Plain ''offline''), DeleteObject = \<lambda>input st. (Some (Plain ''offline''), st), manager_Upload = \<lambda>t input st. (Some (Plain ''offline''), st), manager_Download = \<lambda>t w input st. (Some (Plain ''offline''), w)\<rparr> :: unit Client)
            \<lparr>DeleteObject := \<lambda>input st. (Some (ErrNoSuchKey ''gone''), st)\<rparr>,
          uploader = \<lparr>PartSize = 5242880, Concurrency = 1\<rparr>, downloader = \<lparr>PartSize = 5242880, Concurrency = 1\<rparr>\<rparr> ''a/b.txt'' ()
   = (Some (Wrap ''couldn't delete file a/b.txt from media: NoSuchKey: gone'' (ErrNoSuchKey ''gone'')),
      ())"
  using Delete_wraps_NoSuchKey[
      where s = "\<lparr>Bucket = ''media'',
          client = (\<lparr>GetObject = \<lambda>input st. Inl (Plain ''offline''), HeadObject = \<lambda>input st. Some (Plain ''offline''), DeleteObject = \<lambda>input st. (Some (Plain ''offline''), st), manager_Upload = \<lambda>t input st. (Some (Plain ''offline''), st), manager_Download = \<lambda>t w input st. (Some (Plain ''offline''), w)\<rparr> :: unit Client)
            \<lparr>DeleteObject := \<lambda>input st. (Some (ErrNoSuchKey ''gone''), st)\<rparr>,
          uploader = \<lparr>PartSize = 5242880, Concurrency = 1\<rparr>, downloader = \<lparr>PartSize = 5242880, Concurrency = 1\<rparr>\<rparr>"
        and path = "''a/b.txt''" and st = "()" and err = "ErrNoSuchKey ''gone''" and st' = "()"]
  by simp

subsection \<open>Content-type sniffing\<close>

lemma ReadFull_loop_unfold:
  "length buf < L \<Longrightarrow>
   ReadFull_loop r L buf None =
     ReadFull_loop (snd (Read r (L - length buf))) L (buf @ fst (fst (Read r (L - length buf))))
       (snd (fst (Read r (L - length buf))))"
  by (subst ReadFull_loop.simps) (simp split: prod.splits)

lemma read_to_end_unfold:
  "0 < k \<Longrightarrow>
   read_to_end r k acc =
     (case snd (fst (Read r k)) of
        None \<Rightarrow> read_to_end (snd (Read r k)) k (acc @ fst (fst (Read r k)))
      | Some e \<Rightarrow> (acc @ fst (fst (Read r k)), e))"
  by (subst read_to_end.simps) (simp split: prod.splits option.splits)

lemmas eval_simps = ReadFull_loop_unfold ReadFull_loop_err_stop read_to_end_unfold
  Read_MultiReader_Cons flattens_def

lemmas Save_input_eval = Save_input_def sniff_def sniffed_def resolve_options_def
  zero_SaveOptions_def WithAutoContentType_def WithContentType_def ReadFull_def Errorf_w_def

lemma Save_input_stream:
  assumes "Save_input s D path r opts = Inr input"
  shows "stream_of (put_Body input) = stream_of r" "put_Bucket input = Bucket s" "put_Key input = path"
proof -
  from assms obtain options r' where sn: "sniff D (resolve_options opts) r = Inr (options, r')"
    and i: "input = \<lparr>put_Bucket = Bucket s, put_Key = path, put_Body = r',
               put_ContentType = (if ContentType options \<noteq> '''' then Some (ContentType options) else None)\<rparr>"
    by (auto simp: Save_input_def split: sum.splits prod.splits)
  from sniff_stream[OF sn] i show "stream_of (put_Body input) = stream_of r" by simp
  from i show "put_Bucket input = Bucket s" "put_Key input = path" by simp_all
qed

lemma Save_input_sniffing:
  assumes "ContentType (resolve_options opts) = ''''" and "AutoContentType (resolve_options opts)"
    and "ReadFull r 512 = ((buf, err), r')"
  shows "Save_input s D path r opts =
     (case err of
        Some e \<Rightarrow>
          if e \<noteq> ErrUnexpectedEOF \<and> e \<noteq> EOF then
            Inl (Wrap (''failed to read file header for content-type detection: '' @ Error e) e)
          else Inr \<lparr>put_Bucket = Bucket s, put_Key = path,
                    put_Body = (if buf = [] then r' else MultiReader [BytesReader buf, r']),
                    put_ContentType = (if buf = [] \<or> D buf = '''' then None else Some (D buf))\<rparr>
      | None \<Rightarrow> Inr \<lparr>put_Bucket = Bucket s, put_Key = path,
                    put_Body = (if buf = [] then r' else MultiReader [BytesReader buf, r']),
                    put_ContentType = (if buf = [] \<or> D buf = '''' then None else Some (D buf))\<rparr>)"
  using assms
  by (auto simp: Save_input_def sniff_def sniffed_def Errorf_w_def split: option.splits)





text \<open>
  C5. Let \<^verbatim>\<open>Save\<close> sniff, and let \<^verbatim>\<open>io.ReadFull\<close> on the window of 512 bytes return
  the error \<open>err\<close>. If \<open>err\<close> is an error other than \<open>EOF\<close> and
  \<open>ErrUnexpectedEOF\<close>, \<^verbatim>\<open>Save\<close> returns the wrapped error before any request is built,
  and the store is as before, whatever the client would have done. If \<open>err\<close> is
  \<^verbatim>\<open>nil\<close>, \<open>EOF\<close> or \<open>ErrUnexpectedEOF\<close>, a request is built and \<^verbatim>\<open>Save\<close> succeeds
  exactly when the upload of that request does.
\<close>

theorem Save_sniff_read_failure:
  assumes "ContentType (resolve_options opts) = ''''" and "AutoContentType (resolve_options opts)"
    and "ReadFull r 512 = ((buf, err), r')"
  shows "(\<forall>e. err = Some e \<and> e \<noteq> EOF \<and> e \<noteq> ErrUnexpectedEOF \<longrightarrow>
            Save_input s D path r opts =
              Inl (Wrap (''failed to read file header for content-type detection: '' @ Error e) e)
          \<and> Save s D path r opts st =
              (Some (Wrap (''failed to read file header for content-type detection: '' @ Error e) e), st))
       \<and> (err = None \<or> err = Some EOF \<or> err = Some ErrUnexpectedEOF \<longrightarrow>
            (\<exists>input. Save_input s D path r opts = Inr input \<and>
               (fst (Save s D path r opts st) = None
                  \<longleftrightarrow> fst (manager_Upload (client s) (uploader s) input st) = None)))"
proof -
  note i = Save_input_sniffing[OF assms, of s D path]
  have 1: "Save_input s D path r opts =
              Inl (Wrap (''failed to read file header for content-type detection: '' @ Error e) e)
          \<and> Save s D path r opts st =
              (Some (Wrap (''failed to read file header for content-type detection: '' @ Error e) e), st)"
    if "err = Some e" "e \<noteq> EOF" "e \<noteq> ErrUnexpectedEOF" for e
    using that i by (simp add: Save_def)
  have 2: "\<exists>input. Save_input s D path r opts = Inr input \<and>
               (fst (Save s D path r opts st) = None
                  \<longleftrightarrow> fst (manager_Upload (client s) (uploader s) input st) = None)"
    if "err = None \<or> err = Some EOF \<or> err = Some ErrUnexpectedEOF"
  proof -
    from that i obtain input where inp: "Save_input s D path r opts = Inr input"
      by (auto split: option.splits)
    have "fst (Save s D path r opts st) = None
                  \<longleftrightarrow> fst (manager_Upload (client s) (uploader s) input st) = None"
      by (simp add: Save_def inp split: prod.splits option.splits)
    with inp show ?thesis by (intro exI[of _ input]) simp
  qed
  from 1 2 show ?thesis by blast
qed

theorem Save_sniff_read_failure_witness:
  "Save \<lparr>Bucket = ''media'',
         client = (\<lparr>GetObject = \<lambda>input st. Inl (Plain ''offline''), HeadObject = \<lambda>input st. Some (Plain ''offline''), DeleteObject = \<lambda>input st. (Some (Plain ''offline''), st), manager_Upload = \<lambda>t input st. (Some (Plain ''offline''), st), manager_Download = \<lambda>t w input st. (Some (Plain ''offline''), w)\<rparr> :: nat Client)\<lparr>manager_Upload := \<lambda>t input st. (None, Suc st)\<rparr>,
         uploader = \<lparr>PartSize = 5242880, Concurrency = 1\<rparr>, downloader = \<lparr>PartSize = 5242880, Concurrency = 1\<rparr>\<rparr>
      (\<lambda>b. ''text/plain; charset=utf-8'') ''a/b.txt'' (Source [[104, 101, 108, 108, 111]] (Plain ''connection reset'') False)
      [WithAutoContentType] 0
   = (Some (Wrap ''failed to read file header for content-type detection: connection reset''
              (Plain ''connection reset'')), 0)"
proof -
  have o: "ContentType (resolve_options [WithAutoContentType]) = ''''"
    "AutoContentType (resolve_options [WithAutoContentType])"
    by (simp_all add: resolve_options_def zero_SaveOptions_def WithAutoContentType_def)
  have rf: "ReadFull (Source [[104, 101, 108, 108, 111]] (Plain ''connection reset'') False) 512
      = (([104, 101, 108, 108, 111], Some (Plain ''connection reset'')),
         Source [] (Plain ''connection reset'') False)"
    by (simp add: ReadFull_def eval_simps)
  from Save_sniff_read_failure[OF o rf,
      where s = "\<lparr>Bucket = ''media'',
         client = (\<lparr>GetObject = \<lambda>input st. Inl (Plain ''offline''), HeadObject = \<lambda>input st. Some (Plain ''offline''), DeleteObject = \<lambda>input st. (Some (Plain ''offline''), st), manager_Upload = \<lambda>t input st. (Some (Plain ''offline''), st), manager_Download = \<lambda>t w input st. (Some (Plain ''offline''), w)\<rparr> :: nat Client)\<lparr>manager_Upload := \<lambda>t input st. (None, Suc st)\<rparr>,
         uploader = \<lparr>PartSize = 5242880, Concurrency = 1\<rparr>, downloader = \<lparr>PartSize = 5242880, Concurrency = 1\<rparr>\<rparr>"
        and D = "\<lambda>b. ''text/plain; charset=utf-8''" and path = "''a/b.txt''" and st = 0]
  show ?thesis by simp
qed

text \<open>
  C7. Let \<^verbatim>\<open>Save\<close> sniff a stream that yields no byte and then ends. Then
  \<^verbatim>\<open>io.ReadFull\<close> returns no bytes and \<open>EOF\<close>, the detector is not consulted, the
  request is built without a content type and with the (still empty) stream as its body,
  and \<^verbatim>\<open>Save\<close> succeeds exactly when the upload of that request does.
\<close>

theorem Save_sniff_empty_stream:
  assumes "ContentType (resolve_options opts) = ''''" and "AutoContentType (resolve_options opts)"
    and "0 < k" and "read_to_end r k [] = ([], EOF)"
  shows "\<exists>r'. ReadFull r 512 = (([], Some EOF), r')
            \<and> Save_input s D path r opts =
                 Inr \<lparr>put_Bucket = Bucket s, put_Key = path, put_Body = r', put_ContentType = None\<rparr>
            \<and> read_to_end r' k [] = ([], EOF)
            \<and> (fst (Save s D path r opts st) = None \<longleftrightarrow>
                 fst (manager_Upload (client s) (uploader s)
                   \<lparr>put_Bucket = Bucket s, put_Key = path, put_Body = r', put_ContentType = None\<rparr> st) = None)"
proof -
  from assms(3,4) have st: "stream_of r = ([], EOF)" by (simp add: read_to_end_stream prod_eq_iff)
  obtain buf err r' where rf: "ReadFull r 512 = ((buf, err), r')" by (metis prod.exhaust)
  from ReadFull_stream[OF rf] st have f: "buf = []" "err = Some EOF" "stream_of r' = ([], EOF)"
    by simp_all
  from Save_input_sniffing[OF assms(1,2) rf, of s D path] f
  have i: "Save_input s D path r opts =
     Inr \<lparr>put_Bucket = Bucket s, put_Key = path, put_Body = r', put_ContentType = None\<rparr>"
    by simp
  have "fst (Save s D path r opts st) = None \<longleftrightarrow>
                 fst (manager_Upload (client s) (uploader s)
                   \<lparr>put_Bucket = Bucket s, put_Key = path, put_Body = r', put_ContentType = None\<rparr> st) = None"
    by (simp add: Save_def i split: prod.splits option.splits)
  with rf f i assms(3) show ?thesis by (auto simp: read_to_end_stream)
qed

theorem Save_sniff_empty_stream_witness:
  "Save_input \<lparr>Bucket = ''media'', client = (\<lparr>GetObject = \<lambda>input st. Inl (Plain ''offline''), HeadObject = \<lambda>input st. Some (Plain ''offline''), DeleteObject = \<lambda>input st. (Some (Plain ''offline''), st), manager_Upload = \<lambda>t input st. (Some (Plain ''offline''), st), manager_Download = \<lambda>t w input st. (Some (Plain ''offline''), w)\<rparr> :: unit Client), uploader = \<lparr>PartSize = 5242880, Concurrency = 1\<rparr>,
               downloader = \<lparr>PartSize = 5242880, Concurrency = 1\<rparr>\<rparr>
      (\<lambda>b. ''text/plain; charset=utf-8'') ''empty.bin'' (Source [] EOF False) [WithAutoContentType]
   = Inr \<lparr>put_Bucket = ''media'', put_Key = ''empty.bin'', put_Body = Source [] EOF False,
          put_ContentType = None\<rparr>"
proof -
  have o: "ContentType (resolve_options [WithAutoContentType]) = ''''"
    "AutoContentType (resolve_options [WithAutoContentType])"
    by (simp_all add: resolve_options_def zero_SaveOptions_def WithAutoContentType_def)
  have k: "0 < (1::nat)" by simp
  have e: "read_to_end (Source [] EOF False) 1 [] = ([], EOF)" by (simp add: eval_simps)
  have rf: "ReadFull (Source [] EOF False) 512 = (([], Some EOF), Source [] EOF False)"
    by (simp add: ReadFull_def eval_simps)
  from Save_sniff_empty_stream[OF o k e,
      where s = "\<lparr>Bucket = ''media'', client = (\<lparr>GetObject = \<lambda>input st. Inl (Plain ''offline''), HeadObject = \<lambda>input st. Some (Plain ''offline''), DeleteObject = \<lambda>input st. (Some (Plain ''offline''), st), manager_Upload = \<lambda>t input st. (Some (Plain ''offline''), st), manager_Download = \<lambda>t w input st. (Some (Plain ''offline''), w)\<rparr> :: unit Client), uploader = \<lparr>PartSize = 5242880, Concurrency = 1\<rparr>,
               downloader = \<lparr>PartSize = 5242880, Concurrency = 1\<rparr>\<rparr>"
        and D = "\<lambda>b. ''text/plain; charset=utf-8''" and path = "''empty.bin''" and st = "()"] rf
  show ?thesis by auto
qed

subsection \<open>Round trip\<close>

lemma upload_parts_stream:
  "upload_parts r p seq = Inr parts \<Longrightarrow>
     concat (map snd parts) = fst (stream_of r) \<and> snd (stream_of r) = EOF \<and>
     map fst parts = [seq..<seq + length parts]"
proof (induction r p seq arbitrary: parts rule: upload_parts.induct)
  case (1 r p seq)
  from 1(2) have p: "p \<noteq> 0" by (auto simp: upload_parts.simps[of r] split: if_splits)
  obtain part err r' where l: "ReadFull_loop r p [] None = ((part, err), r')"
    by (metis prod.exhaust)
  from ReadFull_loop_stream[OF l] have
    f: "part = take p (fst (stream_of r))"
       "stream_of r' = (drop p (fst (stream_of r)), snd (stream_of r))"
       "\<forall>e. err = Some e \<longrightarrow> stream_of r' = ([], e)"
    by auto
  show ?case
  proof (cases err)
    case None
    with 1(2) p l obtain parts' where u: "upload_parts r' p (Suc seq) = Inr parts'"
      and ps: "parts = (seq, part) # parts'"
      by (auto simp: upload_parts.simps[of r] split: sum.splits)
    from 1(1)[OF p l[symmetric] refl None u] have
      IH: "concat (map snd parts') = fst (stream_of r')" "snd (stream_of r') = EOF"
          "map fst parts' = [Suc seq..<Suc seq + length parts']" by auto
    have "[seq..<seq + length parts] = seq # [Suc seq..<Suc seq + length parts']"
      using ps by (simp add: upt_rec[of seq] del: upt_Suc)
    with IH f ps show ?thesis by (simp del: upt_Suc)
  next
    case (Some e)
    with 1(2) p l have e: "e = EOF" and ps: "parts = (if part = [] then [] else [(seq, part)])"
      by (auto simp: upload_parts.simps[of r] split: if_splits)
    from f Some e have "drop p (fst (stream_of r)) = []" "snd (stream_of r) = EOF" by auto
    with f ps show ?thesis by (auto simp: upt_rec[of seq] simp del: upt_Suc)
  qed
qed

lemma reassemble_upload_parts:
  assumes "upload_parts r p seq = Inr parts"
  shows "reassemble parts = fst (stream_of r)"
proof -
  from upload_parts_stream[OF assms] have c: "concat (map snd parts) = fst (stream_of r)"
    and m: "map fst parts = [seq..<seq + length parts]" by auto
  from m have "sorted (map fst parts)" by simp
  then have "sort_key fst parts = parts" by (rule sort_key_id_if_sorted)
  with c show ?thesis by (simp add: reassemble_def)
qed

lemma fold_WriteAt_prefix:
  assumes "0 < p"
  shows "m \<le> (length bs + p - 1) div p \<Longrightarrow>
    fold (\<lambda>rng w. WriteAt w (GetObjectRange bs rng) (fst rng))
         (map (\<lambda>i. (i * p, min p (length bs - i * p))) [0..<m]) w
     = (\<lambda>i. if i < min (m * p) (length bs) then Some (bs ! i) else w i)"
proof (induction m)
  case 0
  then show ?case by simp
next
  case (Suc m)
  let ?F = "\<lambda>rng w. WriteAt w (GetObjectRange bs rng) (fst rng)"
  let ?g = "\<lambda>i. (i * p, min p (length bs - i * p))"
  let ?w = "\<lambda>i. if i < min (m * p) (length bs) then Some (bs ! i) else w i"
  from Suc have IH: "fold ?F (map ?g [0..<m]) w = ?w" by simp
  have "Suc m * p \<le> ((length bs + p - 1) div p) * p"
    using Suc.prems by (rule mult_le_mono1)
  also have "\<dots> \<le> length bs + p - 1" by simp
  finally have mp: "m * p < length bs" using assms by simp
  have "fold ?F (map ?g [0..<Suc m]) w = ?F (?g m) (fold ?F (map ?g [0..<m]) w)"
    by simp
  also have "\<dots> = WriteAt ?w (take (min p (length bs - m * p)) (drop (m * p) bs)) (m * p)"
    unfolding IH by (simp add: GetObjectRange_def)
  also have "\<dots> = (\<lambda>i. if i < min (Suc m * p) (length bs) then Some (bs ! i) else w i)"
    using mp by (auto simp: WriteAt_def fun_eq_iff min_def)
  finally show ?case .
qed

lemma download_parts_eq:
  assumes p: "0 < p"
  shows "download_parts bs p w = (\<lambda>i. if i < length bs then Some (bs ! i) else w i)"
proof -
  have "length bs + p - 1 < ((length bs + p - 1) div p) * p + p"
    using p by (metis add.commute dividend_less_times_div mult.commute)
  then have "length bs \<le> ((length bs + p - 1) div p) * p"
    using p by simp
  then show ?thesis
    using fold_WriteAt_prefix[OF p order_refl, of bs w]
    by (simp add: download_parts_def part_ranges_def min_def)
qed

lemma ReadFull_loop_full: "L \<le> length buf \<Longrightarrow> ReadFull_loop r L buf err = ((buf, err), r)"
  by (simp add: ReadFull_loop.simps)

lemma upload_parts_unfold:
  "0 < p \<Longrightarrow>
   upload_parts r p seq =
     (case snd (fst (ReadFull_loop r p [] None)) of
        None \<Rightarrow>
          (case upload_parts (snd (ReadFull_loop r p [] None)) p (Suc seq) of
             Inl e \<Rightarrow> Inl e
           | Inr parts \<Rightarrow> Inr ((seq, fst (fst (ReadFull_loop r p [] None))) # parts))
      | Some e \<Rightarrow>
          if e = EOF then
            Inr (if fst (fst (ReadFull_loop r p [] None)) = [] then []
                 else [(seq, fst (fst (ReadFull_loop r p [] None)))])
          else Inl e)"
  by (subst upload_parts.simps) (auto split: prod.splits option.splits sum.splits)

text \<open>
  C2, on the object store modelled from the spec. Let the storage work on that store,
  with a positive download part size, and let \<open>r\<close> be a stream that holds the bytes
  \<open>bs\<close>. If \<^verbatim>\<open>Save\<close> of \<open>r\<close> under a key succeeds, with whatever options and whatever
  upload part size, then \<^verbatim>\<open>Download\<close> of the same key succeeds and leaves in the sink
  exactly the bytes \<open>bs\<close> at the offsets \<open>0\<close> to \<open>length bs - 1\<close>; every other offset of
  the sink is as before. This holds for every length of \<open>bs\<close>: empty, below, at and above
  the part size.
\<close>

theorem Save_Download_roundtrip:
  assumes "client s = mem_Client" and "0 < PartSize (downloader s)"
    and "0 < k" and "read_to_end r k [] = (bs, fin)"
    and "Save s D path r opts st = (None, st')"
  shows "\<exists>w'. Download s path w st' = (None, w') \<and>
              (\<forall>i. w' i = (if i < length bs then Some (bs ! i) else w i))"
proof -
  from assms(3,4) have bs: "bs = fst (stream_of r)" by (simp add: read_to_end_stream prod_eq_iff)
  from assms(5) obtain input where i: "Save_input s D path r opts = Inr input"
    and u: "manager_Upload (client s) (uploader s) input st = (None, st')"
    by (auto simp: Save_def split: sum.splits prod.splits option.splits)
  note b = Save_input_stream[OF i]
  from u assms(1) obtain parts where
    up: "upload_parts (put_Body input) (PartSize (uploader s)) 1 = Inr parts"
    and st': "st' = st((put_Bucket input, put_Key input) \<mapsto>
                      \<lparr>data = reassemble parts, media_type = put_ContentType input\<rparr>)"
    by (auto simp: mem_Client_def mem_Upload_def split: sum.splits)
  from reassemble_upload_parts[OF up] b(1) bs have d: "reassemble parts = bs" by simp
  from st' b d have obj: "st' (Bucket s, path) = Some \<lparr>data = bs, media_type = put_ContentType input\<rparr>"
    by simp
  have "Download s path w st' = (None, download_parts bs (PartSize (downloader s)) w)"
    using assms(1,2) obj by (simp add: Download_def mem_Client_def mem_Download_def)
  with download_parts_eq[OF assms(2), of bs w] show ?thesis by simp
qed

theorem Save_Download_roundtrip_witness:
  "Save \<lparr>Bucket = ''media'', client = mem_Client,
          uploader = \<lparr>PartSize = 5242880, Concurrency = 1\<rparr>,
          downloader = \<lparr>PartSize = 5242880, Concurrency = 1\<rparr>\<rparr>
      (\<lambda>b. ''text/plain; charset=utf-8'') ''a/b.txt''
      (Source [[104, 101, 108, 108, 111], [32, 119, 111, 114, 108, 100]] EOF False)
      [WithAutoContentType] Map.empty
    = (None, [(''media'', ''a/b.txt'') \<mapsto>
               \<lparr>data = [104, 101, 108, 108, 111, 32, 119, 111, 114, 108, 100],
                media_type = Some ''text/plain; charset=utf-8''\<rparr>])
   \<and> (\<exists>w'. Download \<lparr>Bucket = ''media'', client = mem_Client,
          uploader = \<lparr>PartSize = 5242880, Concurrency = 1\<rparr>,
          downloader = \<lparr>PartSize = 5242880, Concurrency = 1\<rparr>\<rparr> ''a/b.txt'' (\<lambda>i. None)
          [(''media'', ''a/b.txt'') \<mapsto>
               \<lparr>data = [104, 101, 108, 108, 111, 32, 119, 111, 114, 108, 100],
                media_type = Some ''text/plain; charset=utf-8''\<rparr>] = (None, w')
         \<and> (\<forall>i. w' i =
               (if i < length [104, 101, 108, 108, 111, 32, 119, 111, 114, 108, 100 :: byte]
                then Some ([104, 101, 108, 108, 111, 32, 119, 111, 114, 108, 100] ! i)
                else None)))
   \<and> (\<exists>w'. Download \<lparr>Bucket = ''media'', client = mem_Client,
          uploader = \<lparr>PartSize = 4, Concurrency = 1\<rparr>,
          downloader = \<lparr>PartSize = 3, Concurrency = 1\<rparr>\<rparr> ''a/b.txt'' (\<lambda>i. Some 0)
          [(''media'', ''a/b.txt'') \<mapsto>
               \<lparr>data = [104, 101, 108, 108, 111, 32, 119, 111, 114, 108, 100],
                media_type = None\<rparr>] = (None, w')
         \<and> (\<forall>i. w' i =
               (if i < length [104, 101, 108, 108, 111, 32, 119, 111, 114, 108, 100 :: byte]
                then Some ([104, 101, 108, 108, 111, 32, 119, 111, 114, 108, 100] ! i)
                else Some 0)))
   \<and> (\<exists>w'. Download \<lparr>Bucket = ''media'', client = mem_Client,
          uploader = \<lparr>PartSize = 5242880, Concurrency = 1\<rparr>,
          downloader = \<lparr>PartSize = 5242880, Concurrency = 1\<rparr>\<rparr> ''empty.bin'' (\<lambda>i. Some 0)
          [(''media'', ''empty.bin'') \<mapsto> \<lparr>data = [], media_type = None\<rparr>] = (None, w')
         \<and> (\<forall>i. w' i = (if i < length ([] :: byte list) then Some ([] ! i) else Some 0)))"
proof -
  let ?s = "\<lparr>Bucket = ''media'', client = mem_Client,
          uploader = \<lparr>PartSize = 5242880, Concurrency = 1\<rparr>,
          downloader = \<lparr>PartSize = 5242880, Concurrency = 1\<rparr>\<rparr>"
  let ?s2 = "\<lparr>Bucket = ''media'', client = mem_Client,
          uploader = \<lparr>PartSize = 4, Concurrency = 1\<rparr>,
          downloader = \<lparr>PartSize = 3, Concurrency = 1\<rparr>\<rparr>"
  let ?r = "Source [[104, 101, 108, 108, 111], [32, 119, 111, 114, 108, 100]] EOF False"
  let ?hello = "[104, 101, 108, 108, 111, 32, 119, 111, 114, 108, 100] :: byte list"
  have k: "0 < (4::nat)" by simp
  have c: "client ?s = mem_Client" "0 < PartSize (downloader ?s)" by simp_all
  have c2: "client ?s2 = mem_Client" "0 < PartSize (downloader ?s2)" by simp_all
  have e: "read_to_end ?r 4 [] = (?hello, EOF)"
    by (simp add: eval_simps)
  have e0: "read_to_end (Source [] EOF False) 4 [] = ([], EOF)"
    by (simp add: eval_simps)
  have sv: "Save ?s (\<lambda>b. ''text/plain; charset=utf-8'') ''a/b.txt'' ?r [WithAutoContentType] Map.empty
      = (None, [(''media'', ''a/b.txt'') \<mapsto>
                 \<lparr>data = ?hello, media_type = Some ''text/plain; charset=utf-8''\<rparr>])"
    by (simp add: Save_def Save_input_eval eval_simps mem_Client_def mem_Upload_def
        upload_parts_unfold ReadFull_loop_full reassemble_def)
  have sv2: "Save ?s2 (\<lambda>b. ''text/plain; charset=utf-8'') ''a/b.txt'' ?r [] Map.empty
      = (None, [(''media'', ''a/b.txt'') \<mapsto> \<lparr>data = ?hello, media_type = None\<rparr>])"
    by (simp add: Save_def Save_input_eval eval_simps mem_Client_def mem_Upload_def
        upload_parts_unfold ReadFull_loop_full reassemble_def)
  have sv0: "Save ?s (\<lambda>b. ''text/plain; charset=utf-8'') ''empty.bin'' (Source [] EOF False)
        [WithAutoContentType] Map.empty
      = (None, [(''media'', ''empty.bin'') \<mapsto> \<lparr>data = [], media_type = None\<rparr>])"
    by (simp add: Save_def Save_input_eval eval_simps mem_Client_def mem_Upload_def
        upload_parts_unfold ReadFull_loop_full reassemble_def)
  from Save_Download_roundtrip[OF c k e sv, of "\<lambda>i. None"]
    Save_Download_roundtrip[OF c2 k e sv2, of "\<lambda>i. Some 0"]
    Save_Download_roundtrip[OF c k e0 sv0, of "\<lambda>i. Some 0"] sv
  show ?thesis by simp
qed

end
